(* ===== verification/Prelude.thy ===== *)
theory Prelude
  imports
    Complex_Main
    "HOL-Library.Multiset"
    "HOL-Library.List_Lexorder"
    "HOL-Library.Char_ord"
    "HOL-Library.Product_Lexorder"
begin

text \<open>
  Shared vocabulary of the development: the Python built-ins and library calls that both
  source files use (\<open>str.lower\<close>, list indexing that raises \<open>IndexError\<close>, slices,
  \<open>sorted(..., reverse=True)\<close>), the exceptions they raise as one datatype, and the
  generic lemmas on lists and stable sorting that the component theories share.
  Python strings are modelled as \<open>string\<close> over the ASCII range; Python floats as
  \<open>real\<close>; Python ints as \<open>nat\<close> where they index a list.
\<close>

named_theorems py_simps "evaluation rules of the modelled Python built-ins"

section \<open>Exceptions\<close>

text \<open>
  The exceptions the two source files raise or catch, by their Python class
  (\<open>ReError\<close> is \<open>re.error\<close>, raised when a search pattern does not compile;
  \<open>ValueError\<close> is what scikit-learn raises for an empty vocabulary).
\<close>

datatype py_error =
    IndexError
  | KeyError string
  | AttributeError
  | TypeError
  | FileNotFoundError string
  | UnpicklingError string
  | ReError string
  | ValueError string

section \<open>Lists as Python lists\<close>

text \<open>\<open>xs[i]\<close> for a non-negative index: out of range raises \<open>IndexError\<close>.\<close>

definition py_index :: "'a list \<Rightarrow> nat \<Rightarrow> py_error + 'a" where
  "py_index xs i = (if i < length xs then Inr (xs ! i) else Inl IndexError)"

text \<open>Sequencing of statements that may raise: the first exception propagates.\<close>

definition py_bind :: "py_error + 'a \<Rightarrow> ('a \<Rightarrow> py_error + 'b) \<Rightarrow> py_error + 'b" where
  "py_bind m f = (case m of Inl e \<Rightarrow> Inl e | Inr x \<Rightarrow> f x)"

text \<open>\<open>xs[a:b]\<close> for non-negative bounds: never raises, clips at the end.\<close>

definition py_slice :: "'a list \<Rightarrow> nat \<Rightarrow> nat \<Rightarrow> 'a list" where
  "py_slice xs a b = take (b - a) (drop a xs)"

text \<open>
  A list comprehension whose element expression may raise: the first exception
  propagates, as Python evaluates the elements left to right.
\<close>

fun py_mapM :: "('a \<Rightarrow> py_error + 'b) \<Rightarrow> 'a list \<Rightarrow> py_error + 'b list" where
  "py_mapM f [] = Inr []"
| "py_mapM f (x # xs) =
     (case f x of
        Inl e \<Rightarrow> Inl e
      | Inr y \<Rightarrow> (case py_mapM f xs of Inl e \<Rightarrow> Inl e | Inr ys \<Rightarrow> Inr (y # ys)))"

text \<open>
  \<open>sorted(xs, key=f, reverse=True)\<close>. CPython implements \<open>reverse=True\<close> by
  reversing the list, sorting it stably in ascending order and reversing the result
  (Objects/listobject.c, \<open>list_sort_impl\<close>); any stable sort gives the same list,
  so the library's insertion sort \<open>sort_key\<close> stands for Timsort.
\<close>

definition py_sorted_reverse :: "('a \<Rightarrow> 'k::linorder) \<Rightarrow> 'a list \<Rightarrow> 'a list" where
  "py_sorted_reverse f xs = rev (sort_key f (rev xs))"

section \<open>Strings\<close>

text \<open>\<open>str.lower()\<close> on ASCII: \<open>A\<close>..\<open>Z\<close> to \<open>a\<close>..\<open>z\<close>, every other character kept.\<close>

definition ascii_upper :: string where
  "ascii_upper = ''ABCDEFGHIJKLMNOPQRSTUVWXYZ''"

definition ascii_lower :: string where
  "ascii_lower = ''abcdefghijklmnopqrstuvwxyz''"

definition py_lower_char :: "char \<Rightarrow> char" where
  "py_lower_char c = (case map_of (zip ascii_upper ascii_lower) c of None \<Rightarrow> c | Some d \<Rightarrow> d)"

definition py_lower :: "string \<Rightarrow> string" where
  "py_lower s = map py_lower_char s"

text \<open>
  \<open>str.isspace()\<close> on the characters 0-255, which is also the class \<open>\\s\<close> of \<open>re\<close>
  on \<open>str\<close> patterns: tab, line feed, vertical tab, form feed, carriage return, the four
  separators 28-31, space, next line (133) and no-break space (160).
\<close>

definition is_py_space :: "char \<Rightarrow> bool" where
  "is_py_space c \<longleftrightarrow> (let n = (of_char c :: nat) in (9 \<le> n \<and> n \<le> 13) \<or> (28 \<le> n \<and> n \<le> 32) \<or> n = 133 \<or> n = 160)"

text \<open>\<open>str.strip()\<close>: leading and trailing whitespace removed.\<close>

definition py_strip :: "string \<Rightarrow> string" where
  "py_strip s = rev (dropWhile is_py_space (rev (dropWhile is_py_space s)))"

text \<open>\<open>p in s\<close> for strings: \<open>p\<close> occurs in \<open>s\<close> as a contiguous substring.\<close>

fun starts_with :: "string \<Rightarrow> string \<Rightarrow> bool" where
  "starts_with [] s = True"
| "starts_with (c # p) [] = False"
| "starts_with (c # p) (d # s) = (c = d \<and> starts_with p s)"

fun is_infix :: "string \<Rightarrow> string \<Rightarrow> bool" where
  "is_infix p [] = (p = [])"
| "is_infix p (d # s) = (starts_with p (d # s) \<or> is_infix p s)"

text \<open>\<open>pd.Series.unique()\<close>: the distinct values in order of first occurrence.\<close>

definition py_unique :: "'a list \<Rightarrow> 'a list" where
  "py_unique xs = rev (remdups (rev xs))"

section \<open>Lemmas on the list built-ins\<close>

lemma py_index_Inr_iff [simp]: "py_index xs i = Inr x \<longleftrightarrow> i < length xs \<and> x = xs ! i"
  by (auto simp: py_index_def)

lemma py_index_Inl_iff [simp]: "py_index xs i = Inl e \<longleftrightarrow> length xs \<le> i \<and> e = IndexError"
  by (auto simp: py_index_def)

lemma py_index_in_range [py_simps]: "i < length xs \<Longrightarrow> py_index xs i = Inr (xs ! i)"
  by (simp add: py_index_def)

lemma py_index_out_of_range [py_simps]: "length xs \<le> i \<Longrightarrow> py_index xs i = Inl IndexError"
  by (simp add: py_index_def)

lemma py_bind_Inl [simp]: "py_bind (Inl e) f = Inl e"
  by (simp add: py_bind_def)

lemma py_bind_Inr [simp]: "py_bind (Inr x) f = f x"
  by (simp add: py_bind_def)

lemma py_bind_eq_Inr: "py_bind m f = Inr y \<longleftrightarrow> (\<exists>x. m = Inr x \<and> f x = Inr y)"
  by (cases m) simp_all

lemma py_bind_eq_Inl:
  "py_bind m f = Inl e \<longleftrightarrow> m = Inl e \<or> (\<exists>x. m = Inr x \<and> f x = Inl e)"
  by (cases m) simp_all

lemma py_mapM_Inl: "py_mapM f xs = Inl e \<Longrightarrow> \<exists>x\<in>set xs. f x = Inl e"
  by (induction xs) (auto split: sum.splits)

lemma py_mapM_Inl_iff: "(\<exists>e. py_mapM f xs = Inl e) \<longleftrightarrow> (\<exists>x\<in>set xs. \<exists>e. f x = Inl e)"
  by (induction xs) (auto split: sum.splits)

lemma py_mapM_Inr_list_all2:
  "py_mapM f xs = Inr ys \<longleftrightarrow> list_all2 (\<lambda>x y. f x = Inr y) xs ys"
proof (induction xs arbitrary: ys)
  case (Cons x xs)
  then show ?case
    by (cases "f x"; cases "py_mapM f xs") (auto simp: list_all2_Cons1 simp flip: Cons.IH)
qed auto

lemma py_mapM_Inr_iff:
  "py_mapM f xs = Inr ys \<longleftrightarrow> length ys = length xs \<and> (\<forall>i<length xs. f (xs ! i) = Inr (ys ! i))"
  by (auto simp: py_mapM_Inr_list_all2 list_all2_conv_all_nth)

lemma length_py_slice [simp]: "length (py_slice xs a b) = min (b - a) (length xs - a)"
  by (simp add: py_slice_def)

lemma set_py_slice: "set (py_slice xs a b) \<subseteq> set xs"
  by (auto simp: py_slice_def dest: in_set_takeD in_set_dropD)

lemma py_mapM_ok:
  "(\<And>x. x \<in> set xs \<Longrightarrow> f x = Inr (g x)) \<Longrightarrow> py_mapM f xs = Inr (map g xs)"
  by (induction xs) auto

lemma py_mapM_Inr_length: "py_mapM f xs = Inr ys \<Longrightarrow> length ys = length xs"
  by (induction xs arbitrary: ys) (auto split: sum.splits)

lemma ascii_cases_disjoint: "set ascii_lower \<inter> set ascii_upper = {}"
  by (simp add: ascii_upper_def ascii_lower_def)

lemma py_lower_char_idem [simp]: "py_lower_char (py_lower_char c) = py_lower_char c"
proof (cases "map_of (zip ascii_upper ascii_lower) c")
  case None
  then show ?thesis by (simp add: py_lower_char_def)
next
  case (Some d)
  then have "d \<in> set ascii_lower" by (auto dest: map_of_SomeD set_zip_rightD)
  then have "d \<notin> set ascii_upper" using ascii_cases_disjoint by blast
  moreover have "length ascii_upper = length ascii_lower"
    by (simp add: ascii_upper_def ascii_lower_def)
  ultimately have "map_of (zip ascii_upper ascii_lower) d = None"
    by (simp add: map_of_zip_is_None)
  with Some show ?thesis by (simp add: py_lower_char_def)
qed

lemma py_lower_idem [simp]: "py_lower (py_lower s) = py_lower s"
  by (simp add: py_lower_def)

lemma py_lower_append [simp]: "py_lower (xs @ ys) = py_lower xs @ py_lower ys"
  by (simp add: py_lower_def)

lemma length_py_lower [simp]: "length (py_lower s) = length s"
  by (simp add: py_lower_def)

lemma starts_with_iff: "starts_with p s \<longleftrightarrow> (\<exists>t. s = p @ t)"
  by (induction p s rule: starts_with.induct) auto

lemma is_infix_iff: "is_infix p s \<longleftrightarrow> (\<exists>xs ys. s = xs @ p @ ys)"
proof (induction s)
  case Nil
  then show ?case by simp
next
  case (Cons d s)
  have "(\<exists>xs ys. d # s = xs @ p @ ys) \<longleftrightarrow> (\<exists>t. d # s = p @ t) \<or> (\<exists>xs ys. s = xs @ p @ ys)"
    by (auto simp: Cons_eq_append_conv)
  with Cons.IH show ?case by (simp add: starts_with_iff)
qed

lemma is_infix_Nil [simp]: "is_infix [] s"
  by (cases s) simp_all

lemma all_dropWhile_iff: "(\<forall>x\<in>set (dropWhile P s). P x) \<longleftrightarrow> (\<forall>x\<in>set s. P x)"
  by (induction s) auto

lemma py_strip_Nil_iff: "py_strip s = [] \<longleftrightarrow> (\<forall>c\<in>set s. is_py_space c)"
  by (simp add: py_strip_def dropWhile_eq_Nil_conv all_dropWhile_iff)

lemma distinct_py_unique [simp]: "distinct (py_unique xs)"
  by (simp add: py_unique_def)

lemma set_py_unique [simp]: "set (py_unique xs) = set xs"
  by (simp add: py_unique_def)

section \<open>Lemmas on stable sorting\<close>

lemma mset_py_sorted_reverse [simp]: "mset (py_sorted_reverse f xs) = mset xs"
  by (simp add: py_sorted_reverse_def)

lemma set_py_sorted_reverse [simp]: "set (py_sorted_reverse f xs) = set xs"
  by (simp add: py_sorted_reverse_def)

lemma length_py_sorted_reverse [simp]: "length (py_sorted_reverse f xs) = length xs"
  by (simp add: py_sorted_reverse_def)

lemma py_sorted_reverse_descending: "sorted_wrt (\<ge>) (map f (py_sorted_reverse f xs))"
  by (simp add: py_sorted_reverse_def rev_map [symmetric] sorted_wrt_rev)

lemma py_sorted_reverse_stable:
  "filter (\<lambda>y. f y = k) (py_sorted_reverse f xs) = filter (\<lambda>y. f y = k) xs"
  by (simp add: py_sorted_reverse_def rev_filter [symmetric] sort_key_stable)

text \<open>
  Over an ordered group, sorting in reverse is sorting by the negated key: both are the
  unique stable sort of the list by the descending key.
\<close>

lemma py_sorted_reverse_neg_key:
  fixes f :: "'a \<Rightarrow> 'k::linordered_ab_group_add"
  shows "py_sorted_reverse f xs = sort_key (\<lambda>x. - f x) xs"
proof (rule properties_for_sort_key [symmetric])
  show "mset (py_sorted_reverse f xs) = mset xs" by simp
next
  fix k
  have "\<And>x. (- f k = - f x) = (f x = f k)" by auto
  then show "filter (\<lambda>x. - f k = - f x) (py_sorted_reverse f xs) = filter (\<lambda>x. - f k = - f x) xs"
    using py_sorted_reverse_stable [of f "f k" xs] by simp
next
  have "sorted_wrt (\<ge>) (map f (py_sorted_reverse f xs))"
    by (rule py_sorted_reverse_descending)
  then show "sorted (map (\<lambda>x. - f x) (py_sorted_reverse f xs))"
    by (simp add: sorted_wrt_map)
qed

text \<open>
  A list already in key order is left alone by \<open>sort_key\<close>; projecting a
  lexicographically sorted list on the first component keeps it sorted.
\<close>

lemma sort_key_sorted_id: "sorted (map f xs) \<Longrightarrow> sort_key f xs = xs"
  by (rule properties_for_sort_key) simp_all

lemma sorted_lex_fst:
  "sorted (map (\<lambda>x. (a x, b x)) xs) \<Longrightarrow> sorted (map a xs)"
  by (induction xs) (auto simp: less_eq_prod_def)

lemma sorted_const_pair:
  "sorted (map h xs) \<Longrightarrow> sorted (map (\<lambda>x. (c, h x)) xs)"
  by (induction xs) (auto simp: less_eq_prod_def)

text \<open>
  Stable sorting a list that is ordered by \<open>h\<close> breaks ties by \<open>h\<close>: sorting by \<open>g\<close>
  is sorting by the pair \<open>(g, h)\<close>.
\<close>

lemma sort_key_tie_break:
  assumes sorted_h: "sorted (map h xs)"
  shows "sort_key (\<lambda>x. (g x, h x)) xs = sort_key g xs"
proof (rule properties_for_sort_key [symmetric])
  let ?ys = "sort_key (\<lambda>x. (g x, h x)) xs"
  show "mset ?ys = mset xs" by simp
  show "sorted (map g ?ys)"
    by (rule sorted_lex_fst [where b = h]) simp
  fix k
  let ?P = "\<lambda>x. g k = g x"
  have same_key: "map (\<lambda>x. (g x, h x)) (filter ?P xs) = map (\<lambda>x. (g k, h x)) (filter ?P xs)"
    by simp
  have "sorted (map h (filter ?P xs))"
    using sorted_h by (simp add: sorted_filter)
  then have "sorted (map (\<lambda>x. (g k, h x)) (filter ?P xs))"
    by (rule sorted_const_pair)
  then have "sort_key (\<lambda>x. (g x, h x)) (filter ?P xs) = filter ?P xs"
    by (intro sort_key_sorted_id) (simp only: same_key)
  then show "filter ?P ?ys = filter ?P xs"
    by (simp add: filter_sort)
qed

lemma sort_key_tie_break_fst:
  "sorted (map fst xs) \<Longrightarrow> sort_key (\<lambda>x. (g x, fst x)) xs = sort_key g xs"
  by (rule sort_key_tie_break)

text \<open>The element with the strictly least key comes first after sorting.\<close>

lemma sort_key_hd_least:
  assumes "y \<in> set xs" and "\<And>z. z \<in> set xs \<Longrightarrow> z \<noteq> y \<Longrightarrow> f y < f z"
  shows "\<exists>zs. sort_key f xs = y # zs"
proof (cases "sort_key f xs")
  case Nil
  with assms(1) show ?thesis by (metis empty_iff set_sort list.set(1))
next
  case (Cons z zs)
  have "sorted (map f (sort_key f xs))" by simp
  with Cons have least: "\<forall>w\<in>set (z # zs). f z \<le> f w" by auto
  have "z \<in> set xs" using Cons by (metis list.set_intros(1) set_sort)
  have "z = y"
  proof (rule ccontr)
    assume "z \<noteq> y"
    with assms(2) \<open>z \<in> set xs\<close> have "f y < f z" by blast
    moreover have "y \<in> set (z # zs)" using Cons assms(1) by (metis set_sort)
    ultimately show False using least by force
  qed
  with Cons show ?thesis by blast
qed

end
