(* ===== verification/Data_Model.thy ===== *)
theory Data_Model
  imports Prelude
begin

text \<open>
  The data the two source files exchange: a cell of the raw CSV table, one row of the
  processed course table (the \<open>new_df\<close> that \<open>preprocess_data\<close> returns and
  \<open>save_resources\<close> pickles), and the similarity matrix. The course table is a list of
  rows; its row position is the identity that the matrix's rows and columns refer to.
\<close>

text \<open>
  A cell of a text (object) column as \<open>pd.read_csv\<close> produces it: a string, or the
  missing value \<open>NaN\<close>. Numbers are kept as their CSV text. This is exact for the
  columns the program computes with as long as each holds at least one text value: a
  column that \<open>read_csv\<close> types as numeric (all numbers, or all missing) is not modelled,
  and for the four columns summed into the tag (lines 21-26) it would make \<open>+\<close> raise
  \<open>TypeError\<close>.
\<close>

datatype cell = CStr string | CNaN

text \<open>
  One row of \<open>new_df\<close> (CourseRecommendationSystem.py, lines 37-46). The three text
  columns were passed through \<open>astype(str)\<close> and cleaned, so they are strings; the
  other source columns are kept as read; \<open>tags\<close> is the stemmed composite document.
\<close>

record course =
  course_name :: string
  university :: cell
  difficulty_level :: cell
  course_rating :: cell
  course_url :: cell
  course_description :: string
  skills :: string
  tags :: string

type_synonym course_table = "course list"

text \<open>The similarity matrix: a numpy array of floats, one row per course.\<close>

type_synonym matrix = "real list list"

text \<open>A document's count vector: \<open>CountVectorizer\<close>'s counts, one per feature.\<close>

type_synonym count_vector = "nat list"

text \<open>
  A row with the given name, difficulty, description and skills and fixed display
  columns, for the concrete examples of the component theories.
\<close>

definition example_course :: "string \<Rightarrow> string \<Rightarrow> string \<Rightarrow> string \<Rightarrow> course" where
  "example_course n d desc sk =
     \<lparr>course_name = n, university = CStr ''Example University'', difficulty_level = CStr d,
      course_rating = CStr ''4.5'', course_url = CStr ''https://www.coursera.org/learn/example'',
      course_description = desc, skills = sk, tags = n @ '' '' @ d @ '' '' @ desc @ '' '' @ sk\<rparr>"

end
