(* ===== verification/Search.thy ===== *)
theory Search
  imports Data_Model
begin

text \<open>
  The Search Engine: \<open>enhanced_search\<close>, the nested function of \<open>main()\<close> in main.py
  (lines 74-80). The query is stripped and lower-cased, and a row matches when
  \<open>Series.str.contains(query)\<close> holds for its lower-cased name, description or skills.
  pandas' \<open>str.contains\<close> treats the query as a regular expression (\<open>regex=True\<close> is
  its default): it compiles the pattern once with \<open>re.compile\<close>, which raises
  \<open>re.error\<close> for a malformed pattern, and tests each string with \<open>search\<close>. The
  \<open>re\<close> library is not part of the repository, so the compiler is a parameter of type
  \<open>re_compile\<close>; \<open>literal_compile\<close> is how \<open>re\<close> behaves on a pattern with no
  metacharacter (substring search), and \<open>compiles_literally\<close> says a compiler agrees
  with it on such patterns. The specification's search (\<open>search_spec\<close>) is the
  substring filter; the refinement theorem shows the two agree on literal queries.
\<close>

section \<open>Definitions\<close>

text \<open>A compiled pattern: \<open>re.compile(p)\<close>, then \<open>search(s) is not None\<close>.\<close>

type_synonym re_compile = "string \<Rightarrow> py_error + (string \<Rightarrow> bool)"

text \<open>The metacharacters of Python's \<open>re\<close>: \<open>. ^ $ * + ? { } [ ] | ( )\<close> and backslash.\<close>

definition regex_meta :: string where
  "regex_meta = ''.^$*+?{}[]|()'' @ [CHR 0x5C]"

definition is_literal_pattern :: "string \<Rightarrow> bool" where
  "is_literal_pattern p \<longleftrightarrow> list_all (\<lambda>c. c \<notin> set regex_meta) p"

text \<open>A pattern without metacharacters matches exactly the strings that contain it.\<close>

definition literal_compile :: re_compile where
  "literal_compile p = Inr (is_infix p)"

definition compiles_literally :: "re_compile \<Rightarrow> bool" where
  "compiles_literally rc \<longleftrightarrow> (\<forall>p. is_literal_pattern p \<longrightarrow> rc p = Inr (is_infix p))"

text \<open>
  \<open>enhanced_search(query)\<close>: \<open>query.strip().lower()\<close>, then the rows where any of
  the three lower-cased columns contains the pattern, in table order.
\<close>

definition search_query :: "string \<Rightarrow> string" where
  "search_query query = py_lower (py_strip query)"

definition row_matches :: "(string \<Rightarrow> bool) \<Rightarrow> course \<Rightarrow> bool" where
  "row_matches m c \<longleftrightarrow>
     m (py_lower (course_name c)) \<or> m (py_lower (course_description c)) \<or> m (py_lower (skills c))"

definition enhanced_search :: "re_compile \<Rightarrow> course_table \<Rightarrow> string \<Rightarrow> py_error + course_table" where
  "enhanced_search rc courses query =
     (case rc (search_query query) of
        Inl e \<Rightarrow> Inl e
      | Inr m \<Rightarrow> Inr (filter (row_matches m) courses))"

section \<open>Abstract specification\<close>

text \<open>
  The specification's search: the query lower-cased and trimmed is a case-insensitive
  substring of the name, the description or the skills; table order is kept.
\<close>

definition search_spec :: "course_table \<Rightarrow> string \<Rightarrow> course_table" where
  "search_spec courses query =
     filter (\<lambda>c. let q = py_lower (py_strip query) in
                   (\<exists>xs ys. py_lower (course_name c) = xs @ q @ ys) \<or>
                   (\<exists>xs ys. py_lower (course_description c) = xs @ q @ ys) \<or>
                   (\<exists>xs ys. py_lower (skills c) = xs @ q @ ys))
            courses"

section \<open>Lemmas\<close>

lemma compiles_literally_literal_compile: "compiles_literally literal_compile"
  by (simp add: compiles_literally_def literal_compile_def)

lemma enhanced_search_Inr:
  "rc (search_query query) = Inr m \<Longrightarrow> enhanced_search rc courses query = Inr (filter (row_matches m) courses)"
  by (simp add: enhanced_search_def)

lemma enhanced_search_Inl:
  "rc (search_query query) = Inl e \<Longrightarrow> enhanced_search rc courses query = Inl e"
  by (simp add: enhanced_search_def)

lemma enhanced_search_cases:
  "enhanced_search rc courses query = Inr rs \<Longrightarrow>
     \<exists>m. rc (search_query query) = Inr m \<and> rs = filter (row_matches m) courses"
  by (auto simp: enhanced_search_def split: sum.splits)

lemmas search_example_simps = literal_compile_def search_query_def row_matches_def py_strip_def
  is_py_space_def py_lower_def py_lower_char_def ascii_upper_def ascii_lower_def example_course_def

section \<open>Properties\<close>

text \<open>
  C13. Refinement: with a compiler that treats a pattern without metacharacters as a
  literal, and a query whose trimmed lower-cased form has none, \<open>enhanced_search\<close>
  returns exactly the specification's substring search.
\<close>

theorem enhanced_search_refines_spec:
  assumes "compiles_literally rc" and "is_literal_pattern (search_query query)"
  shows "enhanced_search rc courses query = Inr (search_spec courses query)"
proof -
  have "rc (search_query query) = Inr (is_infix (search_query query))"
    using assms by (simp add: compiles_literally_def)
  moreover have "filter (row_matches (is_infix (search_query query))) courses = search_spec courses query"
    unfolding search_spec_def Let_def
    by (rule filter_cong) (simp_all add: row_matches_def search_query_def is_infix_iff)
  ultimately show ?thesis by (simp add: enhanced_search_Inr)
qed

theorem enhanced_search_refines_spec_witness:
  "enhanced_search literal_compile
     [example_course ''data science'' ''Beginner'' ''data'' ''python'',
      example_course ''opera history'' ''Beginner'' ''opera'' ''music'',
      example_course ''big data'' ''Advanced'' ''spark'' ''hadoop'']
     '' Data '' =
   Inr (search_spec
     [example_course ''data science'' ''Beginner'' ''data'' ''python'',
      example_course ''opera history'' ''Beginner'' ''opera'' ''music'',
      example_course ''big data'' ''Advanced'' ''spark'' ''hadoop'']
     '' Data '')"
proof -
  have "is_literal_pattern (search_query '' Data '')"
    by (simp add: is_literal_pattern_def regex_meta_def search_example_simps)
  then show ?thesis
    using enhanced_search_refines_spec [OF compiles_literally_literal_compile] by blast
qed

text \<open>
  C14. Finding (a gap in the specification): a query of whitespace only passes the
  page's emptiness test, strips to the empty pattern, and matches every row.
\<close>

theorem whitespace_query_matches_all:
  assumes "compiles_literally rc" and "\<forall>c\<in>set query. is_py_space c"
  shows "enhanced_search rc courses query = Inr courses"
proof -
  have "search_query query = []"
    using assms(2) by (simp add: search_query_def py_strip_Nil_iff py_lower_def)
  moreover have "is_literal_pattern []" by (simp add: is_literal_pattern_def)
  ultimately have "rc (search_query query) = Inr (is_infix [])"
    using assms(1) by (simp add: compiles_literally_def)
  then show ?thesis by (simp add: enhanced_search_Inr row_matches_def)
qed

theorem whitespace_query_matches_all_witness:
  "enhanced_search literal_compile
     [example_course ''data science'' ''Beginner'' ''data'' ''python'',
      example_course ''opera history'' ''Beginner'' ''opera'' ''music''] ''   '' =
   Inr [example_course ''data science'' ''Beginner'' ''data'' ''python'',
        example_course ''opera history'' ''Beginner'' ''opera'' ''music'']"
proof -
  have "\<forall>c\<in>set ''   ''. is_py_space c" by (simp add: is_py_space_def)
  then show ?thesis
    using whitespace_query_matches_all [OF compiles_literally_literal_compile] by blast
qed

end
