(* ===== verification/Recommend.thy ===== *)
theory Recommend
  imports Data_Model
begin

text \<open>
  The Recommendation Engine: \<open>get_recommendations\<close>, the nested function of
  \<open>main()\<close> in main.py (lines 60-71). The body of its \<open>try\<close> block is
  \<open>recommendation_try\<close>, whose exceptions are values of \<open>py_error\<close>; the
  \<open>except Exception\<close> handler that turns every exception into \<open>[]\<close> is
  \<open>get_recommendations\<close>. The abstract specification \<open>rank_by_score\<close> ranks the
  columns of a row by descending score with ties broken by ascending column index, and
  the refinement theorem shows that the code returns the names of ranks 2 to 7.
\<close>

section \<open>Definitions\<close>

text \<open>
  \<open>courses_df[courses_df['course_name'].str.lower() == course_name.lower()]\<close>:
  the matching rows, each with its row label, in table order.
\<close>

definition name_matches :: "course_table \<Rightarrow> string \<Rightarrow> (nat \<times> course) list" where
  "name_matches courses q =
     filter (\<lambda>(i, c). py_lower (course_name c) = py_lower q) (enumerate 0 courses)"

text \<open>
  \<open>sorted(list(enumerate(row)), key=lambda x: x[1], reverse=True)[1:7]\<close>
  (lines 66-67).
\<close>

definition sorted_scores :: "real list \<Rightarrow> (nat \<times> real) list" where
  "sorted_scores row = py_slice (py_sorted_reverse snd (enumerate 0 row)) 1 7"

text \<open>
  The \<open>try\<close> block (lines 62-68): no match returns \<open>[]\<close>; otherwise the first
  match's label indexes the matrix (\<open>similarity_matrix[index]\<close>, which raises
  \<open>IndexError\<close> past the last row) and each selected column indexes the table
  (\<open>courses_df.iloc[i[0]]\<close>, which raises \<open>IndexError\<close> past the last row).
\<close>

definition recommendation_try :: "course_table \<Rightarrow> matrix \<Rightarrow> string \<Rightarrow> py_error + string list" where
  "recommendation_try courses sim q =
     (case name_matches courses q of
        [] \<Rightarrow> Inr []
      | (index, _) # _ \<Rightarrow>
          (case py_index sim index of
             Inl e \<Rightarrow> Inl e
           | Inr row \<Rightarrow>
               py_mapM (\<lambda>(i, _). map_sum id course_name (py_index courses i)) (sorted_scores row)))"

text \<open>
  The whole function (lines 60-71): the \<open>except Exception\<close> handler reports the error
  with \<open>st.error\<close> and returns \<open>[]\<close>. The result pairs the returned list with the
  errors reported on the page.
\<close>

definition get_recommendations_run ::
  "course_table \<Rightarrow> matrix \<Rightarrow> string \<Rightarrow> string list \<times> py_error list" where
  "get_recommendations_run courses sim q =
     (case recommendation_try courses sim q of Inl e \<Rightarrow> ([], [e]) | Inr names \<Rightarrow> (names, []))"

text \<open>The value \<open>get_recommendations(course_name)\<close> returns.\<close>

definition get_recommendations :: "course_table \<Rightarrow> matrix \<Rightarrow> string \<Rightarrow> string list" where
  "get_recommendations courses sim q = fst (get_recommendations_run courses sim q)"

section \<open>Abstract specification\<close>

text \<open>
  The ranking the specification asks for: the column indices of a row, by descending
  score, equal scores by ascending index.
\<close>

definition rank_by_score :: "real list \<Rightarrow> nat list" where
  "rank_by_score row = map fst (sort_key (\<lambda>(j, s). (- s, j)) (enumerate 0 row))"

section \<open>Lemmas\<close>

lemma get_recommendations_eq:
  "get_recommendations courses sim q =
     (case recommendation_try courses sim q of Inl _ \<Rightarrow> [] | Inr names \<Rightarrow> names)"
  by (simp add: get_recommendations_def get_recommendations_run_def split: sum.split)

lemma name_matches_Cons_props:
  "filter (\<lambda>(i, c). P c) (enumerate n xs) = (i, c) # ms \<Longrightarrow>
   n \<le> i \<and> i < n + length xs \<and> c = xs ! (i - n) \<and> P c \<and> (\<forall>j. n \<le> j \<and> j < i \<longrightarrow> \<not> P (xs ! (j - n)))"
proof (induction xs arbitrary: n)
  case Nil
  then show ?case by simp
next
  case (Cons x xs)
  show ?case
  proof (cases "P x")
    case True
    with Cons.prems show ?thesis by auto
  next
    case False
    with Cons.prems have "filter (\<lambda>(i, c). P c) (enumerate (Suc n) xs) = (i, c) # ms" by simp
    then have IH: "Suc n \<le> i \<and> i < Suc n + length xs \<and> c = xs ! (i - Suc n) \<and> P c \<and>
        (\<forall>j. Suc n \<le> j \<and> j < i \<longrightarrow> \<not> P (xs ! (j - Suc n)))"
      by (rule Cons.IH)
    have "\<forall>j. n \<le> j \<and> j < i \<longrightarrow> \<not> P ((x # xs) ! (j - n))"
    proof (intro allI impI)
      fix j assume j: "n \<le> j \<and> j < i"
      show "\<not> P ((x # xs) ! (j - n))"
      proof (cases "j = n")
        case True
        with False show ?thesis by simp
      next
        case False
        with j IH have "\<not> P (xs ! (j - Suc n))" by auto
        moreover have "(x # xs) ! (j - n) = xs ! (j - Suc n)"
          using False j by (simp add: nth_Cons')
        ultimately show ?thesis by simp
      qed
    qed
    with IH show ?thesis by (auto simp: nth_Cons')
  qed
qed

lemma py_sorted_reverse_enumerate:
  fixes row :: "real list"
  shows "py_sorted_reverse snd (enumerate n row) = sort_key (\<lambda>(j, s). (- s, j)) (enumerate n row)"
proof -
  have "py_sorted_reverse snd (enumerate n row) = sort_key (\<lambda>x. - snd x) (enumerate n row)"
    by (rule py_sorted_reverse_neg_key)
  also have "\<dots> = sort_key (\<lambda>x. (- snd x, fst x)) (enumerate n row)"
    by (rule sort_key_tie_break_fst [symmetric]) simp
  also have "(\<lambda>x::nat \<times> real. (- snd x, fst x)) = (\<lambda>(j, s). (- s, j))"
    by auto
  finally show ?thesis .
qed

lemma sorted_scores_eq_rank:
  "sorted_scores row = py_slice (sort_key (\<lambda>(j, s). (- s, j)) (enumerate 0 row)) 1 7"
  by (simp add: sorted_scores_def py_sorted_reverse_enumerate)

lemma sorted_scores_in_row:
  "p \<in> set (sorted_scores row) \<Longrightarrow> fst p < length row \<and> snd p = row ! fst p"
proof -
  assume "p \<in> set (sorted_scores row)"
  then have "p \<in> set (enumerate 0 row)"
    using set_py_slice unfolding sorted_scores_def by fastforce
  then show ?thesis by (simp add: in_set_enumerate_eq)
qed

lemma length_sorted_scores: "length (sorted_scores row) \<le> 6"
  by (simp add: sorted_scores_def)

lemma recommendation_try_Inr_length:
  "recommendation_try courses sim q = Inr names \<Longrightarrow> length names \<le> 6"
  by (auto simp: recommendation_try_def length_sorted_scores
      dest!: py_mapM_Inr_length split: list.splits sum.splits prod.splits)

lemma distinct_fst_sort_enumerate: "distinct (map fst (sort_key f (enumerate n row)))"
proof -
  have d: "distinct (map fst (enumerate n row))" by simp
  have "mset (map fst (sort_key f (enumerate n row))) = mset (map fst (enumerate n row))"
    by (simp only: mset_map mset_sort)
  then show ?thesis using d mset_eq_imp_distinct_iff by blast
qed

text \<open>
  Two rows whose scores tie: \<open>[1:7]\<close> drops the earlier row, so the later one is
  recommended to itself.
\<close>

lemma get_recommendations_tied_pair:
  assumes "py_lower (course_name c0) \<noteq> py_lower (course_name c1)"
  shows "get_recommendations [c0, c1] [[1, 1], [1, 1]] (course_name c1) = [course_name c1]"
proof -
  have "name_matches [c0, c1] (course_name c1) = [(1, c1)]"
    using assms by (simp add: name_matches_def)
  then show ?thesis
    by (simp add: get_recommendations_eq recommendation_try_def sorted_scores_def
        py_sorted_reverse_def py_slice_def py_index_def)
qed

text \<open>The first row whose name matches heads the list of matches.\<close>

lemma name_matches_first:
  assumes "i < length courses" and "py_lower (course_name (courses ! i)) = py_lower q"
    and "\<forall>j<i. py_lower (course_name (courses ! j)) \<noteq> py_lower q"
  shows "\<exists>ms. name_matches courses q = (i, courses ! i) # ms"
proof -
  let ?P = "\<lambda>(j, c). py_lower (course_name c) = py_lower q"
  have split: "courses = take i courses @ courses ! i # drop (Suc i) courses"
    using assms(1) by (rule id_take_nth_drop)
  have "enumerate 0 courses = enumerate 0 (take i courses) @ (i, courses ! i) # enumerate (Suc i) (drop (Suc i) courses)"
    using assms(1) by (subst split) (simp add: enumerate_append_eq)
  moreover have "filter ?P (enumerate 0 (take i courses)) = []"
    using assms(3) by (auto simp: filter_empty_conv in_set_enumerate_eq)
  ultimately show ?thesis using assms(2) by (simp add: name_matches_def)
qed

text \<open>The \<open>try\<close> block on a matched row that exists and indexes only rows of the table.\<close>

lemma recommendation_try_row:
  assumes "name_matches courses q = (i, c) # ms"
    and "i < length sim" and "length (sim ! i) \<le> length courses"
  shows "recommendation_try courses sim q = Inr (map (\<lambda>p. course_name (courses ! fst p)) (sorted_scores (sim ! i)))"
proof -
  let ?g = "\<lambda>p :: nat \<times> real. course_name (courses ! fst p)"
  have ok: "(\<lambda>(j, _). map_sum id course_name (py_index courses j)) p = Inr (?g p)"
    if "p \<in> set (sorted_scores (sim ! i))" for p
    using sorted_scores_in_row [OF that] assms(3) by (auto simp: py_index_in_range split: prod.splits)
  show ?thesis
    using assms(1,2) by (simp add: recommendation_try_def py_index_in_range py_mapM_ok [OF ok])
qed

lemmas example_simps = example_course_def name_matches_def py_lower_def py_lower_char_def
  ascii_upper_def ascii_lower_def

section \<open>Properties\<close>

text \<open>
  C1. Refinement: when the query matches a row whose matrix row exists and indexes only
  rows of the table, the code returns the names of the items ranked 2 to 7 by the
  specification's ranking (descending score, ties by ascending row index).
\<close>

theorem get_recommendations_refines_rank:
  assumes match: "name_matches courses q = (i, c) # ms"
    and row: "i < length sim" and cols: "length (sim ! i) \<le> length courses"
  shows "get_recommendations courses sim q =
           map (\<lambda>j. course_name (courses ! j)) (take 6 (drop 1 (rank_by_score (sim ! i))))"
  using recommendation_try_row [OF assms]
  by (simp add: get_recommendations_eq sorted_scores_eq_rank rank_by_score_def py_slice_def take_map drop_map)

theorem get_recommendations_refines_rank_witness:
  "name_matches [example_course ''intro to python'' ''Beginner'' ''python'' ''coding'',
                 example_course ''python programming'' ''Beginner'' ''python'' ''coding'',
                 example_course ''opera history'' ''Advanced'' ''opera'' ''music'']
                ''Intro to Python'' =
     [(0, example_course ''intro to python'' ''Beginner'' ''python'' ''coding'')] \<and>
   0 < length [[1, 0.8, 0], [0.8, 1, 0], [0, 0, 1 :: real]] \<and>
   length ([[1, 0.8, 0], [0.8, 1, 0], [0, 0, 1 :: real]] ! 0) \<le> 3 \<and>
   get_recommendations [example_course ''intro to python'' ''Beginner'' ''python'' ''coding'',
                        example_course ''python programming'' ''Beginner'' ''python'' ''coding'',
                        example_course ''opera history'' ''Advanced'' ''opera'' ''music'']
                       [[1, 0.8, 0], [0.8, 1, 0], [0, 0, 1]] ''Intro to Python'' =
     [''python programming'', ''opera history'']"
proof -
  let ?cs = "[example_course ''intro to python'' ''Beginner'' ''python'' ''coding'',
              example_course ''python programming'' ''Beginner'' ''python'' ''coding'',
              example_course ''opera history'' ''Advanced'' ''opera'' ''music'']"
  let ?sim = "[[1, 0.8, 0], [0.8, 1, 0], [0, 0, 1 :: real]]"
  have m: "name_matches ?cs ''Intro to Python'' =
             [(0, example_course ''intro to python'' ''Beginner'' ''python'' ''coding'')]"
    by (simp add: example_simps)
  have "get_recommendations ?cs ?sim ''Intro to Python'' =
          map (\<lambda>j. course_name (?cs ! j)) (take 6 (drop 1 (rank_by_score (?sim ! 0))))"
    by (rule get_recommendations_refines_rank [OF m]) simp_all
  also have "\<dots> = [''python programming'', ''opera history'']"
    by (simp add: rank_by_score_def example_course_def)
  finally show ?thesis using m by simp
qed

text \<open>C2. Bounds: \<open>get_recommendations\<close> never returns more than six names.\<close>

theorem get_recommendations_at_most_six: "length (get_recommendations courses sim q) \<le> 6"
  by (auto simp: get_recommendations_eq dest: recommendation_try_Inr_length split: sum.splits)

text \<open>
  C3. Ordering: the selected columns are columns of the row, listed by non-increasing
  score, each paired with its own score.
\<close>

theorem sorted_scores_non_increasing:
  "sorted_wrt (\<ge>) (map (\<lambda>j. row ! j) (map fst (sorted_scores row))) \<and>
   (\<forall>p\<in>set (sorted_scores row). fst p < length row \<and> snd p = row ! fst p)"
proof
  have desc: "sorted_wrt (\<ge>) (map snd (sorted_scores row))"
    using py_sorted_reverse_descending [of snd "enumerate 0 row"]
    by (simp add: sorted_scores_def py_slice_def take_map [symmetric] drop_map [symmetric]
        sorted_wrt_take sorted_wrt_drop)
  have "\<forall>p\<in>set (sorted_scores row). row ! fst p = snd p"
    using sorted_scores_in_row by auto
  then have eq: "map (\<lambda>j. row ! j) (map fst (sorted_scores row)) = map snd (sorted_scores row)"
    by simp
  show "sorted_wrt (\<ge>) (map (\<lambda>j. row ! j) (map fst (sorted_scores row)))"
    unfolding eq by (rule desc)
  show "\<forall>p\<in>set (sorted_scores row). fst p < length row \<and> snd p = row ! fst p"
    using sorted_scores_in_row by blast
qed

theorem sorted_scores_non_increasing_witness:
  "sorted_scores [0.5, 1, 0.9] = [(2, 0.9), (0, 0.5)] \<and>
   sorted_wrt (\<ge>) (map (\<lambda>j. [0.5, 1, 0.9 :: real] ! j) (map fst (sorted_scores [0.5, 1, 0.9])))"
proof -
  have "sorted_scores [0.5, 1, 0.9] = [(2, 0.9), (0, 0.5 :: real)]"
    by (simp add: sorted_scores_def py_sorted_reverse_def py_slice_def)
  then show ?thesis using sorted_scores_non_increasing [of "[0.5, 1, 0.9]"] by simp
qed

text \<open>
  C4. Self-exclusion: if the queried row's own score is the largest in its row and no
  earlier column reaches it, the queried row is not among the selected columns.
\<close>

theorem sorted_scores_excludes_self:
  assumes "i < length row" and "\<forall>s\<in>set row. s \<le> row ! i"
    and "\<forall>s\<in>set (take i row). s < row ! i"
  shows "i \<notin> fst ` set (sorted_scores row)"
proof -
  let ?key = "\<lambda>(j, s). (- s, j :: nat)"
  let ?y = "(i, row ! i)"
  have y: "?y \<in> set (enumerate 0 row)"
    using assms(1) by (simp add: in_set_enumerate_eq)
  have least: "?key ?y < ?key z" if "z \<in> set (enumerate 0 row)" and "z \<noteq> ?y" for z
  proof -
    define j where "j = fst z"
    define s where "s = snd z"
    have j: "j < length row" and s: "s = row ! j"
      using that(1) by (auto simp: in_set_enumerate_eq j_def s_def)
    have z: "z = (j, s)" by (simp add: j_def s_def)
    have "j \<noteq> i" using that(2) z s by auto
    show ?thesis
    proof (cases "j < i")
      case True
      then have "row ! j \<in> set (take i row)" using j by (auto simp: in_set_conv_nth)
      with assms(3) have "row ! j < row ! i" by blast
      with z s show ?thesis by (simp add: less_prod_def)
    next
      case False
      with \<open>j \<noteq> i\<close> have "i < j" by simp
      have "row ! j \<le> row ! i" using assms(2) j by simp
      with z s \<open>i < j\<close> show ?thesis by (auto simp: less_prod_def)
    qed
  qed
  obtain zs where sorted: "sort_key ?key (enumerate 0 row) = ?y # zs"
    using sort_key_hd_least [of ?y "enumerate 0 row" ?key] y least by blast
  have "distinct (map fst (?y # zs))"
    using distinct_fst_sort_enumerate [of ?key 0 row] by (simp only: sorted)
  then have "i \<notin> fst ` set zs" by simp
  moreover have "set (sorted_scores row) \<subseteq> set zs"
    by (simp add: sorted_scores_eq_rank sorted py_slice_def) (meson set_take_subset)
  ultimately show ?thesis by blast
qed

theorem sorted_scores_excludes_self_witness:
  "1 < length [0.5, 1, 0.9 :: real] \<and> 1 \<notin> fst ` set (sorted_scores [0.5, 1, 0.9 :: real])"
proof -
  have "\<forall>s\<in>set [0.5, 1, 0.9 :: real]. s \<le> [0.5, 1, 0.9] ! 1" by simp
  moreover have "\<forall>s\<in>set (take 1 [0.5, 1, 0.9 :: real]). s < [0.5, 1, 0.9] ! 1" by simp
  ultimately show ?thesis using sorted_scores_excludes_self [of 1 "[0.5, 1, 0.9]"] by simp
qed

text \<open>
  C5. No match: a name that matches no row, ignoring case, returns the empty list and
  reports no error on the page (the guard of lines 63-64 runs before \<open>matches.index[0]\<close>,
  which would raise and be reported).
\<close>

theorem get_recommendations_no_match:
  assumes "\<forall>c\<in>set courses. py_lower (course_name c) \<noteq> py_lower q"
  shows "get_recommendations_run courses sim q = ([], [])"
proof -
  have "name_matches courses q = []"
    using assms by (auto simp: name_matches_def filter_empty_conv in_set_enumerate_eq)
  then show ?thesis by (simp add: get_recommendations_run_def recommendation_try_def)
qed

theorem get_recommendations_no_match_witness:
  "get_recommendations_run [example_course ''opera history'' ''Advanced'' ''opera'' ''music''] [[1]]
     ''NoSuchCourse'' = ([], [])"
proof -
  have h: "\<forall>c\<in>set [example_course ''opera history'' ''Advanced'' ''opera'' ''music''].
      py_lower (course_name c) \<noteq> py_lower ''NoSuchCourse''"
    by (simp add: example_simps)
  show ?thesis using get_recommendations_no_match [OF h] .
qed

text \<open>
  C6. First match: when several rows match the name, the recommendations are those of
  the first of them (\<open>matches.index[0]\<close>, line 65): the columns \<open>sorted_scores\<close>
  selects from that row's scores, named from the table, with no error reported.
\<close>

theorem get_recommendations_first_match:
  assumes "i < length courses" and "py_lower (course_name (courses ! i)) = py_lower q"
    and "\<forall>j<i. py_lower (course_name (courses ! j)) \<noteq> py_lower q"
    and "i < length sim" and "length (sim ! i) \<le> length courses"
  shows "get_recommendations_run courses sim q =
           (map (\<lambda>p. course_name (courses ! fst p)) (sorted_scores (sim ! i)), [])"
proof -
  obtain ms where "name_matches courses q = (i, courses ! i) # ms"
    using name_matches_first [OF assms(1-3)] by blast
  from recommendation_try_row [OF this assms(4,5)] show ?thesis
    by (simp add: get_recommendations_run_def)
qed

theorem get_recommendations_first_match_witness:
  "get_recommendations_run
     [example_course ''opera history'' ''Advanced'' ''opera'' ''music'',
      example_course ''python'' ''Beginner'' ''python'' ''coding'',
      example_course ''Python'' ''Advanced'' ''python'' ''coding'']
     [[1, 0, 0], [0, 1, 0.5], [0, 0.9, 1]] ''PYTHON'' = ([''Python'', ''opera history''], [])"
proof -
  let ?cs = "[example_course ''opera history'' ''Advanced'' ''opera'' ''music'',
      example_course ''python'' ''Beginner'' ''python'' ''coding'',
      example_course ''Python'' ''Advanced'' ''python'' ''coding'']"
  have "1 < length ?cs" "py_lower (course_name (?cs ! 1)) = py_lower ''PYTHON''"
    "\<forall>j<1. py_lower (course_name (?cs ! j)) \<noteq> py_lower ''PYTHON''"
    by (simp_all add: example_simps)
  from get_recommendations_first_match [OF this, of "[[1, 0, 0], [0, 1, 0.5], [0, 0.9, 1]]"]
  show ?thesis
    by (simp add: sorted_scores_def py_sorted_reverse_def py_slice_def example_course_def)
qed

text \<open>
  C7. Error path: when the matched row label has no row in the similarity matrix (the
  two artifacts disagree), the \<open>IndexError\<close> is caught and the result is empty.
\<close>

theorem get_recommendations_missing_row:
  assumes "name_matches courses q = (i, c) # ms" and "length sim \<le> i"
  shows "get_recommendations courses sim q = []"
  using assms by (simp add: get_recommendations_eq recommendation_try_def py_index_out_of_range)

theorem get_recommendations_missing_row_witness:
  "name_matches [example_course ''python'' ''Beginner'' ''python'' ''coding''] ''python'' =
     [(0, example_course ''python'' ''Beginner'' ''python'' ''coding'')] \<and>
   length ([] :: matrix) \<le> 0 \<and>
   get_recommendations [example_course ''python'' ''Beginner'' ''python'' ''coding''] [] ''python'' = []"
proof -
  have m: "name_matches [example_course ''python'' ''Beginner'' ''python'' ''coding''] ''python'' =
     [(0, example_course ''python'' ''Beginner'' ''python'' ''coding'')]"
    by (simp add: example_simps)
  show ?thesis using m get_recommendations_missing_row [OF m, of "[]"] by simp
qed

end
