(* ===== verification/Page.thy ===== *)
theory Page
  imports Search Recommend
begin

text \<open>
  The page logic of \<open>main()\<close> in main.py (lines 29-116). Streamlit runs the script from
  the top on every interaction, with the loaded artifacts cached and \<open>st.session_state\<close>
  kept between runs. One run reads the search box and the difficulty box, searches when
  the box is not empty, applies the difficulty filter when the search found something,
  and asks for recommendations when the session holds \<open>selected_course\<close>. The session
  is a map from keys to values; the run's output is a \<open>view\<close> (what the page shows
  below the inputs) and the session for the next run. Rendering itself (markdown,
  columns, the course cards of lines 89-104) is not modelled: a \<open>view\<close> records the data
  it would show. The loaded table and matrix are parameters: \<open>load_resources\<close> is
  modelled in the Artifacts theory.
\<close>

section \<open>Definitions\<close>

type_synonym session_state = "string \<rightharpoonup> string"

datatype view =
    Idle
  | No_courses_warning
  | Found "course list" "string list"
  | Page_error py_error

text \<open>\<open>==\<close> between a column value and the selected option: NaN equals nothing.\<close>

fun cell_eq :: "cell \<Rightarrow> cell \<Rightarrow> bool" where
  "cell_eq (CStr a) (CStr b) = (a = b)"
| "cell_eq _ _ = False"

text \<open>\<open>['All'] + list(courses_df['Difficulty Level'].unique())\<close> (line 56).\<close>

definition difficulty_options :: "course_table \<Rightarrow> cell list" where
  "difficulty_options courses = CStr ''All'' # py_unique (map difficulty_level courses)"

text \<open>\<open>results[results['Difficulty Level'] == difficulty_filter]\<close> under \<open>!= 'All'\<close> (lines 87-88).\<close>

definition apply_difficulty_filter :: "cell \<Rightarrow> course_table \<Rightarrow> course_table" where
  "apply_difficulty_filter f results =
     (if f \<noteq> CStr ''All'' then filter (\<lambda>c. cell_eq (difficulty_level c) f) results else results)"

text \<open>
  One run of the page (lines 83-116): no search text shows nothing; an exception of the
  search is not caught; an empty result shows the warning; otherwise the filtered
  results, and the recommendations for \<open>st.session_state.selected_course\<close> when the
  session holds that key (\<open>get_recommendations\<close> returns \<open>[]\<close> on any error, and an
  empty list is not shown).
\<close>

definition render_page ::
  "re_compile \<Rightarrow> course_table \<Rightarrow> matrix \<Rightarrow> session_state \<Rightarrow> string \<Rightarrow> cell \<Rightarrow> view" where
  "render_page rc courses sim ss search_input difficulty_filter =
     (if search_input = [] then Idle
      else case enhanced_search rc courses search_input of
        Inl e \<Rightarrow> Page_error e
      | Inr results \<Rightarrow>
          if results = [] then No_courses_warning
          else Found (apply_difficulty_filter difficulty_filter results)
                 (case ss ''selected_course'' of
                    None \<Rightarrow> []
                  | Some name \<Rightarrow> get_recommendations courses sim name))"

text \<open>
  A run returns the session for the next run. Nothing in \<open>main()\<close> assigns to
  \<open>st.session_state\<close>, and neither widget is created with a \<open>key\<close>, so the session
  comes back unchanged.
\<close>

definition page_step ::
  "re_compile \<Rightarrow> course_table \<Rightarrow> matrix \<Rightarrow> session_state \<Rightarrow> string \<times> cell \<Rightarrow> session_state \<times> view" where
  "page_step rc courses sim ss input =
     (ss, render_page rc courses sim ss (fst input) (snd input))"

text \<open>A sequence of interactions, each a rerun of the script from the previous session.\<close>

fun page_run ::
  "re_compile \<Rightarrow> course_table \<Rightarrow> matrix \<Rightarrow> session_state \<Rightarrow> (string \<times> cell) list \<Rightarrow> view list" where
  "page_run rc courses sim ss [] = []"
| "page_run rc courses sim ss (input # inputs) =
     (let (ss', v) = page_step rc courses sim ss input in v # page_run rc courses sim ss' inputs)"

section \<open>Lemmas\<close>

lemma page_step_session: "fst (page_step rc courses sim ss input) = ss"
  by (simp add: page_step_def)

lemma render_page_no_selection:
  "ss ''selected_course'' = None \<Longrightarrow> render_page rc courses sim ss q f = Found rs recs \<Longrightarrow> recs = []"
  by (auto simp: render_page_def split: if_splits sum.splits)

lemma page_run_views:
  "v \<in> set (page_run rc courses sim ss inputs) \<Longrightarrow>
     \<exists>q f. v = render_page rc courses sim ss q f"
  by (induction inputs arbitrary: ss) (auto simp: page_step_def)

lemma render_page_found:
  "search_input \<noteq> [] \<Longrightarrow> enhanced_search rc courses search_input = Inr results \<Longrightarrow> results \<noteq> [] \<Longrightarrow>
   render_page rc courses sim ss search_input f =
     Found (apply_difficulty_filter f results)
       (case ss ''selected_course'' of None \<Rightarrow> [] | Some name \<Rightarrow> get_recommendations courses sim name)"
  by (simp add: render_page_def)

lemmas page_example_simps = render_page_def apply_difficulty_filter_def page_step_def
  enhanced_search_def search_example_simps

section \<open>Properties\<close>

text \<open>
  C15. Finding: recommendations are never shown. Every run of the page starts from the
  session of the previous run and no run assigns \<open>selected_course\<close>, so from a session
  without that key (as every new session is) every view shows an empty recommendation
  list: \<open>get_recommendations\<close> is never called from the page.
\<close>

theorem recommendations_never_shown:
  assumes "ss ''selected_course'' = None"
    and "Found rs recs \<in> set (page_run rc courses sim ss inputs)"
  shows "recs = []"
proof -
  obtain q f where "Found rs recs = render_page rc courses sim ss q f"
    using page_run_views [OF assms(2)] by blast
  then show ?thesis using assms(1) render_page_no_selection by metis
qed

theorem recommendations_never_shown_witness:
  "page_run literal_compile [example_course ''data science'' ''Beginner'' ''data'' ''python''] [[1]]
     Map.empty [(''data'', CStr ''All'')] =
     [Found [example_course ''data science'' ''Beginner'' ''data'' ''python''] []]"
proof -
  have "(Map.empty :: session_state) ''selected_course'' = None" by simp
  moreover have r: "page_run literal_compile [example_course ''data science'' ''Beginner'' ''data'' ''python''] [[1]]
     Map.empty [(''data'', CStr ''All'')] =
     [Found [example_course ''data science'' ''Beginner'' ''data'' ''python''] []]"
    by (simp add: page_example_simps)
  ultimately show ?thesis
    using recommendations_never_shown [of Map.empty _ _ literal_compile
        "[example_course ''data science'' ''Beginner'' ''data'' ''python'']" "[[1]]"
        "[(''data'', CStr ''All'')]"] by simp
qed

text \<open>
  C16. Filtering only narrows: with a difficulty other than \<open>All\<close>, the page shows the
  rows of the \<open>All\<close> view whose difficulty equals it, in the same order, with the same
  recommendations.
\<close>

theorem difficulty_filter_narrows:
  assumes "f \<noteq> CStr ''All''"
    and "render_page rc courses sim ss q (CStr ''All'') = Found rs recs"
  shows "render_page rc courses sim ss q f = Found (filter (\<lambda>c. cell_eq (difficulty_level c) f) rs) recs"
  using assms by (auto simp: render_page_def apply_difficulty_filter_def split: if_splits sum.splits)

theorem difficulty_filter_narrows_witness:
  "render_page literal_compile
     [example_course ''data science'' ''Beginner'' ''data'' ''python'',
      example_course ''big data'' ''Advanced'' ''spark'' ''hadoop''] [] Map.empty ''data'' (CStr ''Beginner'') =
   Found [example_course ''data science'' ''Beginner'' ''data'' ''python''] []"
proof -
  have "render_page literal_compile
     [example_course ''data science'' ''Beginner'' ''data'' ''python'',
      example_course ''big data'' ''Advanced'' ''spark'' ''hadoop''] [] Map.empty ''data'' (CStr ''All'') =
   Found [example_course ''data science'' ''Beginner'' ''data'' ''python'',
      example_course ''big data'' ''Advanced'' ''spark'' ''hadoop''] []"
    by (simp add: page_example_simps)
  from difficulty_filter_narrows [OF _ this, of "CStr ''Beginner''"] show ?thesis
    by (simp add: example_course_def)
qed

text \<open>
  C17. Finding: a search error is not caught. A query whose pattern \<open>re\<close> cannot compile
  (such as \<open>c++\<close>) raises \<open>re.error\<close> out of \<open>str.contains\<close>, and \<open>main()\<close> has no
  handler for it, whereas the specification makes a failed search an empty result.
\<close>

theorem search_error_not_caught:
  assumes "search_input \<noteq> []" and "rc (search_query search_input) = Inl e"
  shows "render_page rc courses sim ss search_input f = Page_error e"
  using assms by (simp add: render_page_def enhanced_search_Inl)

theorem search_error_not_caught_witness:
  "render_page (\<lambda>p. if p = ''c++'' then Inl (ReError ''multiple repeat'') else literal_compile p)
     [example_course ''c++ basics'' ''Beginner'' ''c'' ''coding''] [] Map.empty ''C++'' (CStr ''All'') =
   Page_error (ReError ''multiple repeat'')"
proof -
  have "(\<lambda>p. if p = ''c++'' then Inl (ReError ''multiple repeat'') else literal_compile p)
          (search_query ''C++'') = Inl (ReError ''multiple repeat'')"
    by (simp add: search_example_simps)
  then show ?thesis using search_error_not_caught [of "''C++''"] by simp
qed

end
