(* ===== verification/Normalizer.thy ===== *)
theory Normalizer
  imports Prelude
begin

text \<open>
  The Text Normalizer: the string functions \<open>preprocess_data\<close> applies to each text
  cell (CourseRecommendationSystem.py, lines 15-18 and 30). A cell is cleaned by
  \<open>re.sub(r'[^\w\s]', '', x)\<close> (every character that is neither a word character nor
  whitespace removed), then \<open>str.lower()\<close>, then \<open>str.replace(r'\s+', ' ', regex=True)\<close>
  (every run of whitespace replaced by one space). The tag is split with \<open>str.split()\<close>,
  each word stemmed and the words joined with \<open>' '.join\<close>. \<open>\w\<close> is taken on ASCII
  (a letter, a digit or the underscore): the Latin-1 letters and digits (such as 233, e acute), which Python's
  \<open>\w\<close> keeps, are removed here. The lemmas show what a cleaned string consists of,
  that cleaning is idempotent, and that the words of a space-joined string are the words
  of its parts.
\<close>

section \<open>Definitions\<close>

text \<open>\<open>\w\<close> on ASCII: letters, digits and the underscore.\<close>

definition is_word_char :: "char \<Rightarrow> bool" where
  "is_word_char c \<longleftrightarrow>
     (let n = (of_char c :: nat) in (48 \<le> n \<and> n \<le> 57) \<or> (65 \<le> n \<and> n \<le> 90) \<or> (97 \<le> n \<and> n \<le> 122) \<or> n = 95)"

text \<open>\<open>re.sub(r'[^\w\s]', '', x)\<close>.\<close>

definition strip_punct :: "string \<Rightarrow> string" where
  "strip_punct s = filter (\<lambda>c. is_word_char c \<or> is_py_space c) s"

text \<open>\<open>str.replace(r'\s+', ' ', regex=True)\<close>: each maximal whitespace run becomes one space.\<close>

function collapse_ws :: "string \<Rightarrow> string" where
  "collapse_ws [] = []"
| "collapse_ws (c # s) =
     (if is_py_space c then CHR '' '' # collapse_ws (dropWhile is_py_space s) else c # collapse_ws s)"
  by pat_completeness auto
termination
  by (relation "measure length") (auto simp: le_imp_less_Suc length_dropWhile_le)

text \<open>Lines 17-18 on one cell that \<open>astype(str)\<close> has made a string.\<close>

definition clean_text :: "string \<Rightarrow> string" where
  "clean_text s = collapse_ws (py_lower (strip_punct s))"

text \<open>\<open>str.split()\<close>: the maximal runs of non-whitespace characters, in order.\<close>

function py_split :: "string \<Rightarrow> string list" where
  "py_split [] = []"
| "py_split (c # s) =
     (if is_py_space c then py_split s
      else (c # takeWhile (\<lambda>d. \<not> is_py_space d) s) # py_split (dropWhile (\<lambda>d. \<not> is_py_space d) s))"
  by pat_completeness auto
termination
  by (relation "measure length") (auto simp: le_imp_less_Suc length_dropWhile_le)

text \<open>\<open>' '.join(words)\<close>.\<close>

fun py_join :: "string list \<Rightarrow> string" where
  "py_join [] = []"
| "py_join [w] = w"
| "py_join (w # ws) = w @ CHR '' '' # py_join ws"

text \<open>Line 30 on one tag: split, stem each word, join.\<close>

definition stem_words :: "(string \<Rightarrow> string) \<Rightarrow> string \<Rightarrow> string" where
  "stem_words stem x = py_join (map stem (py_split x))"

section \<open>Abstract specification\<close>

text \<open>
  A normalised string: lower-case word characters and single spaces, never two spaces
  in a row.
\<close>

definition is_clean :: "string \<Rightarrow> bool" where
  "is_clean t \<longleftrightarrow>
     list_all (\<lambda>c. (is_word_char c \<and> py_lower_char c = c) \<or> c = CHR '' '') t \<and> \<not> is_infix ''  '' t"

section \<open>Lemmas\<close>

lemma space_is_py_space [simp]: "is_py_space (CHR '' '')"
  by (simp add: is_py_space_def)

lemma py_lower_char_space [simp]: "py_lower_char (CHR '' '') = CHR '' ''"
  by (simp add: py_lower_char_def ascii_upper_def ascii_lower_def)

lemma word_char_not_space: "is_word_char c \<Longrightarrow> \<not> is_py_space c"
  by (auto simp: is_word_char_def is_py_space_def Let_def)

lemma py_lower_char_cases:
  "py_lower_char c = c \<or> (c \<in> set ascii_upper \<and> py_lower_char c \<in> set ascii_lower)"
  by (cases "map_of (zip ascii_upper ascii_lower) c")
     (auto simp: py_lower_char_def dest: map_of_SomeD set_zip_leftD set_zip_rightD)

lemma upper_lower_word_chars:
  "c \<in> set ascii_upper \<Longrightarrow> is_word_char c" "c \<in> set ascii_lower \<Longrightarrow> is_word_char c"
  by (auto simp: ascii_upper_def ascii_lower_def is_word_char_def)

lemma is_word_char_lower: "is_word_char (py_lower_char c) \<longleftrightarrow> is_word_char c"
  using py_lower_char_cases [of c] upper_lower_word_chars by metis

lemma is_py_space_lower: "is_py_space (py_lower_char c) \<longleftrightarrow> is_py_space c"
  using py_lower_char_cases [of c] upper_lower_word_chars word_char_not_space by metis

lemma collapse_ws_chars:
  "set (collapse_ws s) \<subseteq> {c \<in> set s. \<not> is_py_space c} \<union> {CHR '' ''}"
proof (induction s rule: collapse_ws.induct)
  case 1
  then show ?case by simp
next
  case (2 c s)
  have "set (dropWhile is_py_space s) \<subseteq> set s" by (rule set_dropWhileD [THEN subsetI])
  with 2 show ?case by auto
qed

lemma collapse_ws_Cons_space:
  "collapse_ws s = CHR '' '' # t \<Longrightarrow> s \<noteq> [] \<and> is_py_space (hd s)"
  by (cases s) (auto split: if_splits)

lemma no_double_space_Cons:
  "\<not> is_infix ''  '' r \<Longrightarrow> \<not> (\<exists>t. r = CHR '' '' # t) \<Longrightarrow> \<not> is_infix ''  '' (CHR '' '' # r)"
  by (cases r) simp_all

lemma collapse_ws_no_double_space: "\<not> is_infix ''  '' (collapse_ws s)"
proof (induction s rule: collapse_ws.induct)
  case 1
  then show ?case by simp
next
  case (2 c s)
  show ?case
  proof (cases "is_py_space c")
    case True
    let ?d = "dropWhile is_py_space s"
    have not_sp: "\<not> (\<exists>t. collapse_ws ?d = CHR '' '' # t)"
    proof
      assume "\<exists>t. collapse_ws ?d = CHR '' '' # t"
      then obtain t where "collapse_ws ?d = CHR '' '' # t" by blast
      then have "?d \<noteq> [] \<and> is_py_space (hd ?d)" by (rule collapse_ws_Cons_space)
      then show False using hd_dropWhile [of is_py_space s] by blast
    qed
    have "\<not> is_infix ''  '' (collapse_ws ?d)" using True by (rule "2.IH"(1))
    then have "\<not> is_infix ''  '' (CHR '' '' # collapse_ws ?d)"
      using not_sp by (rule no_double_space_Cons)
    with True show ?thesis by (simp only: collapse_ws.simps if_True simp_thms)
  next
    case False
    then have "c \<noteq> CHR '' ''" by auto
    with False "2.IH"(2) show ?thesis by simp
  qed
qed

lemma collapse_ws_id:
  "list_all (\<lambda>c. \<not> is_py_space c \<or> c = CHR '' '') t \<Longrightarrow> \<not> is_infix ''  '' t \<Longrightarrow> collapse_ws t = t"
proof (induction t rule: collapse_ws.induct)
  case 1
  then show ?case by simp
next
  case (2 c s)
  show ?case
  proof (cases "is_py_space c")
    case True
    with "2.prems"(1) have c: "c = CHR '' ''" by simp
    have "\<not> is_infix ''  '' s" using "2.prems"(2) by simp
    moreover have "dropWhile is_py_space s = s"
      using "2.prems" c by (cases s) auto
    ultimately show ?thesis using True c "2.IH"(1) "2.prems"(1) by simp
  next
    case False
    with "2.prems" "2.IH"(2) show ?thesis by simp
  qed
qed

lemma clean_text_chars:
  "c \<in> set (clean_text s) \<Longrightarrow> (is_word_char c \<and> py_lower_char c = c) \<or> c = CHR '' ''"
proof -
  assume "c \<in> set (clean_text s)"
  then have "c \<in> {c \<in> set (py_lower (strip_punct s)). \<not> is_py_space c} \<union> {CHR '' ''}"
    using collapse_ws_chars unfolding clean_text_def by blast
  then show ?thesis
    by (auto simp: py_lower_def strip_punct_def is_word_char_lower is_py_space_lower)
qed

text \<open>\<open>split()\<close> of two strings joined by whitespace splits each of them.\<close>

lemma py_split_append_space:
  assumes "is_py_space c"
  shows "py_split (a @ c # b) = py_split a @ py_split b"
proof (induction a rule: py_split.induct)
  case 1
  then show ?case using assms by simp
next
  case (2 x s)
  let ?np = "\<lambda>d. \<not> is_py_space d"
  have tw: "takeWhile ?np (s @ c # b) = takeWhile ?np s"
    using assms by (simp add: takeWhile_append) (metis takeWhile_eq_all_conv)
  have dw: "dropWhile ?np (s @ c # b) = dropWhile ?np s @ c # b"
    using assms by (auto simp: dropWhile_append dropWhile_eq_Nil_conv)
  show ?case
  proof (cases "is_py_space x")
    case True
    then show ?thesis using "2.IH"(1) by simp
  next
    case False
    then show ?thesis using "2.IH"(2) [OF False] tw dw by simp
  qed
qed

lemmas normalizer_eval = clean_text_def strip_punct_def is_word_char_def is_py_space_def
  py_lower_def py_lower_char_def ascii_upper_def ascii_lower_def

section \<open>Properties\<close>

text \<open>
  C23. Invariant: a cleaned cell consists of lower-case word characters and single
  spaces, with no two spaces in a row.
\<close>

theorem clean_text_is_clean: "is_clean (clean_text s)"
  using clean_text_chars [of _ s] collapse_ws_no_double_space [of "py_lower (strip_punct s)"]
  by (simp add: is_clean_def list_all_iff clean_text_def)

text \<open>C24. Cleaning is idempotent: a cleaned cell is left as it is by a second cleaning.\<close>

theorem clean_text_idempotent: "clean_text (clean_text s) = clean_text s"
proof -
  let ?t = "clean_text s"
  have chars: "\<And>c. c \<in> set ?t \<Longrightarrow> (is_word_char c \<and> py_lower_char c = c) \<or> c = CHR '' ''"
    by (rule clean_text_chars)
  have "\<forall>c\<in>set ?t. is_word_char c \<or> is_py_space c"
    using chars by fastforce
  then have s1: "strip_punct ?t = ?t"
    by (simp add: strip_punct_def filter_id_conv)
  moreover have "\<forall>c\<in>set ?t. py_lower_char c = c"
    using chars py_lower_char_space by fastforce
  then have s2: "py_lower ?t = ?t"
    by (simp add: py_lower_def map_idI)
  have s3: "collapse_ws ?t = ?t"
  proof (rule collapse_ws_id)
    show "list_all (\<lambda>c. \<not> is_py_space c \<or> c = CHR '' '') ?t"
      using chars word_char_not_space by (auto simp: list_all_iff)
    show "\<not> is_infix ''  '' ?t"
      unfolding clean_text_def by (rule collapse_ws_no_double_space)
  qed
  have "clean_text ?t = collapse_ws (py_lower (strip_punct ?t))"
    by (rule clean_text_def)
  then show ?thesis by (simp only: s1 s2 s3)
qed

end
