(* ===== verification/Preprocess.thy ===== *)
theory Preprocess
  imports Data_Model Normalizer "HOL-Library.AList"
begin

text \<open>
  The Tag Composer and the column selection: \<open>preprocess_data\<close> in
  CourseRecommendationSystem.py (lines 10-48), after \<open>pd.read_csv\<close> (which is not
  modelled: the raw frame is the input). A pandas frame is an association list from
  column names to columns, in column order; \<open>data[col]\<close> raises \<open>KeyError\<close> for a
  missing column, and \<open>data[col] = v\<close> replaces a column in place or appends it
  (\<open>AList.update\<close>). The three text columns are cleaned one after the other
  (\<open>clean_columns\<close>, lines 16-18), the tag is the sum of four columns with spaces
  (lines 21-26: \<open>+\<close> on object columns gives NaN where an operand is NaN), each tag is
  split, stemmed word by word and joined (line 30: a NaN tag has no \<open>split\<close> and raises
  \<open>AttributeError\<close>), the name column is renamed (line 34) and eight columns are selected
  (lines 37-46). The stemmer (NLTK's \<open>PorterStemmer.stem\<close>) is a parameter. The
  columns summed into the tag are taken to be text (object) columns, as they are when
  each holds at least one string; a column that \<open>read_csv\<close> types as numeric, on which
  \<open>+\<close> raises \<open>TypeError\<close>, is not modelled. A raw column already named
  \<open>course_name\<close> is read by first match here, where pandas would select both columns;
  the refinement theorem excludes it.
\<close>

section \<open>Definitions\<close>

type_synonym frame = "(string \<times> cell list) list"

text \<open>\<open>data[col]\<close>.\<close>

definition df_get :: "frame \<Rightarrow> string \<Rightarrow> py_error + cell list" where
  "df_get data col = (case map_of data col of None \<Rightarrow> Inl (KeyError col) | Some v \<Rightarrow> Inr v)"

text \<open>\<open>data[col] = v\<close>.\<close>

definition df_set :: "frame \<Rightarrow> string \<Rightarrow> cell list \<Rightarrow> frame" where
  "df_set data col v = AList.update col v data"

text \<open>\<open>data.rename(columns={old: new}, inplace=True)\<close>.\<close>

definition df_rename :: "string \<Rightarrow> string \<Rightarrow> frame \<Rightarrow> frame" where
  "df_rename old new data = map (\<lambda>(k, v). (if k = old then new else k, v)) data"

text \<open>\<open>data[[c1, ..., cn]]\<close>: the columns in the order asked, \<open>KeyError\<close> if one is missing.\<close>

definition df_select :: "frame \<Rightarrow> string list \<Rightarrow> py_error + frame" where
  "df_select data cols = py_bind (py_mapM (df_get data) cols) (\<lambda>vs. Inr (zip cols vs))"

text \<open>\<open>astype(str)\<close>: a missing value becomes the string \<open>'nan'\<close>.\<close>

fun astype_str :: "cell \<Rightarrow> string" where
  "astype_str (CStr s) = s"
| "astype_str CNaN = ''nan''"

definition text_columns :: "string list" where
  "text_columns = [''Course Name'', ''Course Description'', ''Skills'']"

text \<open>Lines 17-18 on one value: \<open>astype(str)\<close>, \<open>re.sub\<close>, \<open>lower\<close>, whitespace runs.\<close>

definition clean_cell :: "cell \<Rightarrow> cell" where
  "clean_cell c = CStr (clean_text (astype_str c))"

text \<open>The loop of lines 16-18.\<close>

fun clean_columns :: "frame \<Rightarrow> string list \<Rightarrow> py_error + frame" where
  "clean_columns data [] = Inr data"
| "clean_columns data (col # cols) =
     py_bind (df_get data col) (\<lambda>v. clean_columns (df_set data col (map clean_cell v)) cols)"

text \<open>\<open>a + b\<close> on two object values: string concatenation, NaN if either is NaN.\<close>

fun cell_add :: "cell \<Rightarrow> cell \<Rightarrow> cell" where
  "cell_add (CStr a) (CStr b) = CStr (a @ b)"
| "cell_add _ _ = CNaN"

text \<open>Lines 21-26, evaluated left to right: \<open>((((((n + ' ') + d) + ' ') + ds) + ' ') + s)\<close>.\<close>

definition compose_tag :: "cell \<Rightarrow> cell \<Rightarrow> cell \<Rightarrow> cell \<Rightarrow> cell" where
  "compose_tag n d ds s =
     cell_add (cell_add (cell_add (cell_add (cell_add (cell_add n (CStr '' '')) d) (CStr '' '')) ds) (CStr '' '')) s"

definition compose_tags :: "cell list \<Rightarrow> cell list \<Rightarrow> cell list \<Rightarrow> cell list \<Rightarrow> cell list" where
  "compose_tags ns ds descs sks =
     map (\<lambda>((n, d), (ds, s)). compose_tag n d ds s) (zip (zip ns ds) (zip descs sks))"

text \<open>The lambda of line 30: \<open>' '.join([ps.stem(word) for word in x.split()])\<close>.\<close>

definition stem_tag :: "(string \<Rightarrow> string) \<Rightarrow> cell \<Rightarrow> py_error + cell" where
  "stem_tag stem c = (case c of CStr x \<Rightarrow> Inr (CStr (stem_words stem x)) | CNaN \<Rightarrow> Inl AttributeError)"

definition selected_columns :: "string list" where
  "selected_columns = [''course_name'', ''University'', ''Difficulty Level'', ''Course Rating'',
     ''Course URL'', ''Course Description'', ''Skills'', ''tags'']"

text \<open>The body of \<open>preprocess_data\<close> after loading (lines 15-48).\<close>

definition preprocess_frame :: "(string \<Rightarrow> string) \<Rightarrow> frame \<Rightarrow> py_error + frame" where
  "preprocess_frame stem data0 =
     py_bind (clean_columns data0 text_columns) (\<lambda>data.
     py_bind (df_get data ''Course Name'') (\<lambda>n.
     py_bind (df_get data ''Difficulty Level'') (\<lambda>d.
     py_bind (df_get data ''Course Description'') (\<lambda>ds.
     py_bind (df_get data ''Skills'') (\<lambda>s.
     let data1 = df_set data ''tags'' (compose_tags n d ds s) in
     py_bind (df_get data1 ''tags'') (\<lambda>t.
     py_bind (py_mapM (stem_tag stem) t) (\<lambda>t'.
     let data2 = df_rename ''Course Name'' ''course_name'' (df_set data1 ''tags'' t') in
     df_select data2 selected_columns)))))))"

text \<open>
  The returned frame read as rows of the \<open>course\<close> record (the table the other
  components use); the name, description, skills and tag columns hold strings there.
\<close>

definition frame_courses :: "frame \<Rightarrow> course_table" where
  "frame_courses new_df =
     (case map snd new_df of
        [n, u, d, r, l, ds, s, t] \<Rightarrow>
          map (\<lambda>i. \<lparr>course_name = astype_str (n ! i), university = u ! i, difficulty_level = d ! i,
                     course_rating = r ! i, course_url = l ! i, course_description = astype_str (ds ! i),
                     skills = astype_str (s ! i), tags = astype_str (t ! i)\<rparr>) [0..<length n]
      | _ \<Rightarrow> [])"

definition preprocess_data :: "(string \<Rightarrow> string) \<Rightarrow> frame \<Rightarrow> py_error + course_table" where
  "preprocess_data stem data = py_bind (preprocess_frame stem data) (\<lambda>new_df. Inr (frame_courses new_df))"

text \<open>The columns of the raw frame the function reads.\<close>

definition raw_columns :: "string list" where
  "raw_columns = [''Course Name'', ''Course Description'', ''Skills'', ''Difficulty Level'',
     ''University'', ''Course Rating'', ''Course URL'']"

section \<open>Row-wise specification\<close>

text \<open>
  What \<open>preprocess_data\<close> computes for one row of the raw table, read row by row: the
  three text fields cleaned, the other fields kept, and the tag the stemmed words of the
  cleaned name, the difficulty, the cleaned description and the cleaned skills.
\<close>

definition tag_text :: "cell \<Rightarrow> cell \<Rightarrow> cell \<Rightarrow> cell \<Rightarrow> string" where
  "tag_text n d ds s =
     clean_text (astype_str n) @ '' '' @ astype_str d @ '' '' @ clean_text (astype_str ds) @ '' '' @
     clean_text (astype_str s)"

definition preprocess_row ::
  "(string \<Rightarrow> string) \<Rightarrow> cell \<Rightarrow> cell \<Rightarrow> cell \<Rightarrow> cell \<Rightarrow> cell \<Rightarrow> cell \<Rightarrow> cell \<Rightarrow> course" where
  "preprocess_row stem n u d r l ds s =
     \<lparr>course_name = clean_text (astype_str n), university = u, difficulty_level = d, course_rating = r,
      course_url = l, course_description = clean_text (astype_str ds), skills = clean_text (astype_str s),
      tags = stem_words stem (tag_text n d ds s)\<rparr>"

text \<open>A raw frame with the seven columns the function reads, in the order of the CSV.\<close>

definition raw_frame ::
  "cell list \<Rightarrow> cell list \<Rightarrow> cell list \<Rightarrow> cell list \<Rightarrow> cell list \<Rightarrow> cell list \<Rightarrow> cell list \<Rightarrow> frame" where
  "raw_frame n u d r l ds s =
     [(''Course Name'', n), (''University'', u), (''Difficulty Level'', d), (''Course Rating'', r),
      (''Course URL'', l), (''Course Description'', ds), (''Skills'', s)]"

section \<open>Lemmas\<close>

lemma df_get_Some [simp]: "map_of data col = Some v \<Longrightarrow> df_get data col = Inr v"
  by (simp add: df_get_def)

lemma df_get_None [simp]: "map_of data col = None \<Longrightarrow> df_get data col = Inl (KeyError col)"
  by (simp add: df_get_def)

lemma map_of_df_set [simp]: "map_of (df_set data col v) = (map_of data)(col \<mapsto> v)"
  by (simp add: df_set_def update_conv')

lemma map_of_df_rename_new:
  "new \<notin> fst ` set data \<Longrightarrow> map_of (df_rename old new data) new = map_of data old"
  by (induction data) (auto simp: df_rename_def)

lemma map_of_df_rename_other:
  "k \<noteq> new \<Longrightarrow> k \<noteq> old \<Longrightarrow> map_of (df_rename old new data) k = map_of data k"
  by (induction data) (auto simp: df_rename_def)

lemma clean_columns_Inr:
  assumes "distinct cols" and "set cols \<subseteq> dom (map_of data)"
  shows "\<exists>data'. clean_columns data cols = Inr data' \<and>
           map_of data' = (\<lambda>k. if k \<in> set cols then map_option (map clean_cell) (map_of data k) else map_of data k)"
  using assms
proof (induction cols arbitrary: data)
  case Nil
  then show ?case by simp
next
  case (Cons col cols)
  obtain v where v: "map_of data col = Some v" using Cons.prems by auto
  let ?d1 = "df_set data col (map clean_cell v)"
  have "distinct cols" "set cols \<subseteq> dom (map_of ?d1)" using Cons.prems by auto
  from Cons.IH [OF this] obtain data' where
    d': "clean_columns ?d1 cols = Inr data'"
      "map_of data' = (\<lambda>k. if k \<in> set cols then map_option (map clean_cell) (map_of ?d1 k) else map_of ?d1 k)"
    by auto
  have "map_of data' = (\<lambda>k. if k \<in> set (col # cols) then map_option (map clean_cell) (map_of data k) else map_of data k)"
    using Cons.prems(1) v unfolding d'(2) by (auto simp: fun_eq_iff)
  then show ?case using v d'(1) by simp
qed

lemma clean_columns_KeyError:
  assumes "c \<in> set cols" and "c \<notin> dom (map_of data)"
  shows "\<exists>c'. clean_columns data cols = Inl (KeyError c') \<and> c' \<in> set cols \<and> c' \<notin> dom (map_of data)"
  using assms
proof (induction cols arbitrary: data)
  case Nil
  then show ?case by simp
next
  case (Cons col cols)
  show ?case
  proof (cases "map_of data col")
    case None
    then show ?thesis using Cons.prems by (auto simp: df_get_def)
  next
    case (Some v)
    with Cons.prems have "c \<in> set cols" "c \<notin> dom (map_of (df_set data col (map clean_cell v)))"
      by auto
    from Cons.IH [OF this] Some show ?thesis by (auto simp: df_get_def)
  qed
qed

lemma cell_not_NaN: "c \<noteq> CNaN \<Longrightarrow> c = CStr (astype_str c)"
  by (cases c) simp_all

lemma compose_tag_CStr [simp]:
  "compose_tag (CStr a) (CStr b) (CStr c) (CStr d) = CStr (a @ '' '' @ b @ '' '' @ c @ '' '' @ d)"
  by (simp add: compose_tag_def)

lemma compose_tag_NaN_difficulty [simp]: "compose_tag n CNaN ds s = CNaN"
  by (cases n) (simp_all add: compose_tag_def)

lemma length_compose_tags [simp]:
  "length (compose_tags ns ds descs sks) = min (min (length ns) (length ds)) (min (length descs) (length sks))"
  by (simp add: compose_tags_def)

lemma nth_compose_tags [simp]:
  "i < length (compose_tags ns ds descs sks) \<Longrightarrow>
     compose_tags ns ds descs sks ! i = compose_tag (ns ! i) (ds ! i) (descs ! i) (sks ! i)"
  by (simp add: compose_tags_def)

text \<open>The frame after the cleaning loop, read through its columns.\<close>

lemma clean_text_columns:
  assumes "{''Course Name'', ''Course Description'', ''Skills''} \<subseteq> dom (map_of data)"
  shows "\<exists>data1. clean_columns data text_columns = Inr data1 \<and> dom (map_of data1) = dom (map_of data) \<and>
           (\<forall>k. map_of data1 k = (if k \<in> set text_columns then map_option (map clean_cell) (map_of data k) else map_of data k))"
proof -
  have "distinct text_columns" "set text_columns \<subseteq> dom (map_of data)"
    using assms by (simp_all add: text_columns_def)
  from clean_columns_Inr [OF this] obtain data1 where
    "clean_columns data text_columns = Inr data1"
    "map_of data1 = (\<lambda>k. if k \<in> set text_columns then map_option (map clean_cell) (map_of data k) else map_of data k)"
    by blast
  moreover have "dom (map_of data1) = dom (map_of data)"
    using calculation(2) by (auto simp: dom_def)
  ultimately show ?thesis by simp
qed

lemma stem_tags_ok:
  assumes "CNaN \<notin> set D" and "length N = n" "length D = n" "length DS = n" "length S = n"
  shows "py_mapM (stem_tag stem) (compose_tags (map clean_cell N) D (map clean_cell DS) (map clean_cell S)) =
           Inr (map (\<lambda>i. CStr (stem_words stem (tag_text (N ! i) (D ! i) (DS ! i) (S ! i)))) [0..<n])"
proof -
  let ?T = "compose_tags (map clean_cell N) D (map clean_cell DS) (map clean_cell S)"
  let ?g = "\<lambda>c. CStr (stem_words stem (astype_str c))"
  have T: "?T = map (\<lambda>i. CStr (clean_text (astype_str (N ! i)) @ '' '' @ astype_str (D ! i) @ '' '' @
                        clean_text (astype_str (DS ! i)) @ '' '' @ clean_text (astype_str (S ! i)))) [0..<n]"
  proof (rule nth_equalityI)
    fix i assume "i < length ?T"
    with assms have i: "i < n" by simp
    with assms have "D ! i \<noteq> CNaN" by (metis nth_mem)
    then obtain dd where dd: "D ! i = CStr dd" by (cases "D ! i") simp_all
    have "?T ! i = compose_tag (clean_cell (N ! i)) (D ! i) (clean_cell (DS ! i)) (clean_cell (S ! i))"
      using i assms by simp
    then show "?T ! i = map (\<lambda>i. CStr (clean_text (astype_str (N ! i)) @ '' '' @ astype_str (D ! i) @ '' '' @
                        clean_text (astype_str (DS ! i)) @ '' '' @ clean_text (astype_str (S ! i)))) [0..<n] ! i"
      using i dd by (simp add: clean_cell_def)
  qed (simp add: assms)
  have "py_mapM (stem_tag stem) ?T = Inr (map ?g ?T)"
    by (rule py_mapM_ok) (auto simp: T stem_tag_def)
  then show ?thesis by (simp add: T tag_text_def)
qed

lemma frame_courses_selected:
  assumes "length N = n" "length DS = n" "length S = n"
  shows "frame_courses (zip selected_columns [map clean_cell N, U, D, R, L, map clean_cell DS, map clean_cell S,
            map (\<lambda>i. CStr (stem_words stem (tag_text (N ! i) (D ! i) (DS ! i) (S ! i)))) [0..<n]]) =
         map (\<lambda>i. preprocess_row stem (N ! i) (U ! i) (D ! i) (R ! i) (L ! i) (DS ! i) (S ! i)) [0..<n]"
  using assms by (simp add: frame_courses_def selected_columns_def preprocess_row_def clean_cell_def)

lemma clean_columns_Inr_dom:
  "clean_columns data cols = Inr data' \<Longrightarrow> set cols \<subseteq> dom (map_of data)"
  by (metis Inl_Inr_False clean_columns_KeyError subsetI)

lemma clean_columns_text_Inr:
  assumes "clean_columns data text_columns = Inr data1"
  shows "\<exists>N DS S. map_of data ''Course Name'' = Some N \<and> map_of data ''Course Description'' = Some DS \<and>
           map_of data ''Skills'' = Some S \<and>
           map_of data1 ''Course Name'' = Some (map clean_cell N) \<and>
           map_of data1 ''Course Description'' = Some (map clean_cell DS) \<and>
           map_of data1 ''Skills'' = Some (map clean_cell S) \<and>
           (\<forall>k. k \<notin> set text_columns \<longrightarrow> map_of data1 k = map_of data k)"
proof -
  have sub: "{''Course Name'', ''Course Description'', ''Skills''} \<subseteq> dom (map_of data)"
    using clean_columns_Inr_dom [OF assms] by (simp add: text_columns_def)
  from clean_text_columns [OF sub] assms have
    m1: "\<forall>k. map_of data1 k = (if k \<in> set text_columns then map_option (map clean_cell) (map_of data k) else map_of data k)"
    by auto
  from sub obtain N DS S where "map_of data ''Course Name'' = Some N"
      "map_of data ''Course Description'' = Some DS" "map_of data ''Skills'' = Some S" by auto
  with m1 show ?thesis by (simp add: text_columns_def)
qed

lemma map_None_ne: "f c = None \<Longrightarrow> f x \<noteq> None \<Longrightarrow> c \<noteq> x"
  by auto

lemma preprocess_frame_stem_step:
  assumes "clean_columns data text_columns = Inr data1"
    and "map_of data1 ''Course Name'' = Some (map clean_cell N)"
      "map_of data1 ''Course Description'' = Some (map clean_cell DS)"
      "map_of data1 ''Skills'' = Some (map clean_cell S)"
      "map_of data1 ''Difficulty Level'' = Some D"
  shows "preprocess_frame stem data =
           py_bind (py_mapM (stem_tag stem) (compose_tags (map clean_cell N) D (map clean_cell DS) (map clean_cell S)))
             (\<lambda>T'. df_select (df_rename ''Course Name'' ''course_name''
                     (df_set (df_set data1 ''tags'' (compose_tags (map clean_cell N) D (map clean_cell DS) (map clean_cell S)))
                       ''tags'' T')) selected_columns)"
  using assms by (simp add: preprocess_frame_def)

lemma stem_tags_NaN: "CNaN \<in> set T \<Longrightarrow> py_mapM (stem_tag stem) T = Inl AttributeError"
  by (induction T) (auto simp: stem_tag_def split: cell.splits)

lemma compose_tags_has_NaN:
  assumes "CNaN \<in> set D" "length N = length D" "length DS = length D" "length S = length D"
  shows "CNaN \<in> set (compose_tags N D DS S)"
proof -
  from assms(1) obtain i where i: "i < length D" "D ! i = CNaN" by (auto simp: in_set_conv_nth)
  then have "compose_tags N D DS S ! i = CNaN" using assms(2-4) by simp
  then show ?thesis using i assms(2-4) by (metis length_compose_tags min.idem nth_mem)
qed

lemma df_select_missing:
  "c \<in> set cols \<Longrightarrow> map_of d c = None \<Longrightarrow> \<exists>e. df_select d cols = Inl e"
  using py_mapM_Inl_iff [of "df_get d" cols] by (fastforce simp: df_select_def df_get_def)

lemma raw_non_text_columns:
  "c \<in> set raw_columns \<Longrightarrow> c \<notin> set text_columns \<Longrightarrow>
     c \<in> set selected_columns \<and> c \<noteq> ''course_name'' \<and> c \<noteq> ''Course Name'' \<and> c \<noteq> ''tags''"
  unfolding selected_columns_def raw_columns_def text_columns_def list.set insert_iff empty_iff
  by (elim disjE; simp)

text \<open>The frame \<open>preprocess_data\<close> returns when every column it reads is present.\<close>

lemma preprocess_frame_Inr:
  assumes cols: "map_of data ''Course Name'' = Some N" "map_of data ''University'' = Some U"
      "map_of data ''Difficulty Level'' = Some D" "map_of data ''Course Rating'' = Some R"
      "map_of data ''Course URL'' = Some L" "map_of data ''Course Description'' = Some DS"
      "map_of data ''Skills'' = Some S"
    and fresh: "''course_name'' \<notin> fst ` set data"
    and len: "length N = n" "length D = n" "length DS = n" "length S = n"
    and nan: "CNaN \<notin> set D"
  shows "preprocess_frame stem data =
           Inr (zip selected_columns [map clean_cell N, U, D, R, L, map clean_cell DS, map clean_cell S,
             map (\<lambda>i. CStr (stem_words stem (tag_text (N ! i) (D ! i) (DS ! i) (S ! i)))) [0..<n]])"
proof -
  have "{''Course Name'', ''Course Description'', ''Skills''} \<subseteq> dom (map_of data)"
    using cols by auto
  from clean_text_columns [OF this] obtain data1 where
    c1: "clean_columns data text_columns = Inr data1" and
    k1: "dom (map_of data1) = dom (map_of data)" and
    m1: "\<forall>k. map_of data1 k = (if k \<in> set text_columns then map_option (map clean_cell) (map_of data k) else map_of data k)"
    by blast
  let ?T = "compose_tags (map clean_cell N) D (map clean_cell DS) (map clean_cell S)"
  let ?T' = "map (\<lambda>i. CStr (stem_words stem (tag_text (N ! i) (D ! i) (DS ! i) (S ! i)))) [0..<n]"
  let ?data3 = "df_rename ''Course Name'' ''course_name'' (df_set (df_set data1 ''tags'' ?T) ''tags'' ?T')"
  have st: "py_mapM (stem_tag stem) ?T = Inr ?T'"
    by (rule stem_tags_ok) (simp_all add: nan len)
  have "''course_name'' \<notin> dom (map_of data1)"
    using fresh k1 by (simp add: dom_map_of_conv_image_fst)
  then have fr: "''course_name'' \<notin> fst ` set (df_set (df_set data1 ''tags'' ?T) ''tags'' ?T')"
    by (simp add: dom_map_of_conv_image_fst [symmetric])
  have sel: "df_select ?data3 selected_columns =
     Inr (zip selected_columns [map clean_cell N, U, D, R, L, map clean_cell DS, map clean_cell S, ?T'])"
    using m1 cols fr
    by (simp add: df_select_def selected_columns_def text_columns_def map_of_df_rename_new map_of_df_rename_other)
  have "preprocess_frame stem data = df_select ?data3 selected_columns"
    using c1 m1 cols st by (simp add: preprocess_frame_def text_columns_def)
  then show ?thesis using sel by simp
qed

lemmas preprocess_eval = preprocess_data_def preprocess_frame_def text_columns_def clean_cell_def
  compose_tags_def compose_tag_def stem_tag_def stem_words_def df_rename_def df_select_def df_set_def df_get_def
  selected_columns_def frame_courses_def normalizer_eval

section \<open>Properties\<close>

text \<open>
  C25. Refinement of the column-major code by the row-wise specification: when the seven
  columns are present, no column is already called \<open>course_name\<close>, the columns have
  one length and no difficulty is missing, \<open>preprocess_data\<close> returns one row per raw
  row, in order, each the row-wise result \<open>preprocess_row\<close>: the name, description
  and skills cleaned, the other fields unchanged, the tag stemmed.
\<close>

theorem preprocess_data_rows:
  assumes cols: "map_of data ''Course Name'' = Some N" "map_of data ''University'' = Some U"
      "map_of data ''Difficulty Level'' = Some D" "map_of data ''Course Rating'' = Some R"
      "map_of data ''Course URL'' = Some L" "map_of data ''Course Description'' = Some DS"
      "map_of data ''Skills'' = Some S"
    and fresh: "''course_name'' \<notin> fst ` set data"
    and len: "length N = n" "length D = n" "length DS = n" "length S = n"
    and nan: "CNaN \<notin> set D"
  shows "preprocess_data stem data =
           Inr (map (\<lambda>i. preprocess_row stem (N ! i) (U ! i) (D ! i) (R ! i) (L ! i) (DS ! i) (S ! i)) [0..<n])"
  using preprocess_frame_Inr [OF cols fresh len nan] frame_courses_selected [OF len(1,3,4)]
  by (simp add: preprocess_data_def)

theorem preprocess_data_rows_witness:
  "preprocess_data id (raw_frame [CStr ''Intro, to Python!''] [CNaN] [CStr ''Beginner''] [CStr ''4.5'']
      [CStr ''u''] [CStr ''Learn  Python''] [CStr ''coding'']) =
   Inr [preprocess_row id (CStr ''Intro, to Python!'') CNaN (CStr ''Beginner'') (CStr ''4.5'')
      (CStr ''u'') (CStr ''Learn  Python'') (CStr ''coding'')]"
  using preprocess_data_rows [where n = 1 and stem = id and data = "raw_frame [CStr ''Intro, to Python!''] [CNaN]
      [CStr ''Beginner''] [CStr ''4.5''] [CStr ''u''] [CStr ''Learn  Python''] [CStr ''coding'']"]
  by (simp add: raw_frame_def)

text \<open>
  C26. Finding: the difficulty enters the tag raw and is stemmed. The words of a tag are
  the stemmed words of the cleaned name, of the difficulty as it is in the file (not
  cleaned), of the cleaned description and of the cleaned skills; the specification
  asks for the difficulty to be cleaned and not stemmed.
\<close>

theorem preprocess_tags_stem_difficulty:
  assumes cols: "map_of data ''Course Name'' = Some N" "map_of data ''University'' = Some U"
      "map_of data ''Difficulty Level'' = Some D" "map_of data ''Course Rating'' = Some R"
      "map_of data ''Course URL'' = Some L" "map_of data ''Course Description'' = Some DS"
      "map_of data ''Skills'' = Some S"
    and fresh: "''course_name'' \<notin> fst ` set data"
    and len: "length N = n" "length D = n" "length DS = n" "length S = n"
    and nan: "CNaN \<notin> set D"
    and res: "preprocess_data stem data = Inr cs" and i: "i < n"
  shows "tags (cs ! i) =
           py_join (map stem (py_split (clean_text (astype_str (N ! i))) @ py_split (astype_str (D ! i)) @
                              py_split (clean_text (astype_str (DS ! i))) @ py_split (clean_text (astype_str (S ! i)))))"
proof -
  have "cs = map (\<lambda>i. preprocess_row stem (N ! i) (U ! i) (D ! i) (R ! i) (L ! i) (DS ! i) (S ! i)) [0..<n]"
    using res preprocess_frame_Inr [OF cols fresh len nan] frame_courses_selected [OF len(1,3,4)]
    by (simp add: preprocess_data_def)
  then have "tags (cs ! i) = stem_words stem (tag_text (N ! i) (D ! i) (DS ! i) (S ! i))"
    using i by (simp add: preprocess_row_def)
  then show ?thesis
    by (simp add: tag_text_def stem_words_def py_split_append_space)
qed

theorem preprocess_tags_stem_difficulty_witness:
  "preprocess_data (take 5) (raw_frame [CStr ''Python''] [CStr ''MIT''] [CStr ''Beginner''] [CStr ''4.5'']
      [CStr ''u''] [CStr ''Learn''] [CStr ''coding'']) =
     Inr [preprocess_row (take 5) (CStr ''Python'') (CStr ''MIT'') (CStr ''Beginner'') (CStr ''4.5'')
      (CStr ''u'') (CStr ''Learn'') (CStr ''coding'')] \<and>
   tags (preprocess_row (take 5) (CStr ''Python'') (CStr ''MIT'') (CStr ''Beginner'') (CStr ''4.5'')
      (CStr ''u'') (CStr ''Learn'') (CStr ''coding'')) = ''pytho Begin learn codin''"
proof -
  have r: "preprocess_data (take 5) (raw_frame [CStr ''Python''] [CStr ''MIT''] [CStr ''Beginner''] [CStr ''4.5'']
      [CStr ''u''] [CStr ''Learn''] [CStr ''coding'']) =
     Inr [preprocess_row (take 5) (CStr ''Python'') (CStr ''MIT'') (CStr ''Beginner'') (CStr ''4.5'')
      (CStr ''u'') (CStr ''Learn'') (CStr ''coding'')]"
    by (simp add: preprocess_eval raw_frame_def preprocess_row_def tag_text_def py_lower_def py_lower_char_def
        ascii_upper_def ascii_lower_def)
  have "tags ([preprocess_row (take 5) (CStr ''Python'') (CStr ''MIT'') (CStr ''Beginner'') (CStr ''4.5'')
      (CStr ''u'') (CStr ''Learn'') (CStr ''coding'')] ! 0) =
     py_join (map (take 5) (py_split ''python'' @ py_split ''Beginner'' @ py_split ''learn'' @ py_split ''coding''))"
    using preprocess_tags_stem_difficulty [OF _ _ _ _ _ _ _ _ _ _ _ _ _ r, where n = 1]
    by (simp add: raw_frame_def normalizer_eval py_lower_def py_lower_char_def ascii_upper_def ascii_lower_def)
  then show ?thesis using r by (simp add: is_py_space_def)
qed

text \<open>
  C27. Failing fast: when one of the seven columns the function reads is missing, it
  raises instead of returning a table, as the specification requires.
\<close>

theorem preprocess_data_missing_column:
  assumes "c \<in> set raw_columns" and "map_of data c = None"
  shows "\<exists>e. preprocess_data stem data = Inl e"
proof (cases "clean_columns data text_columns")
  case (Inl e)
  then show ?thesis by (simp add: preprocess_data_def preprocess_frame_def)
next
  case (Inr data1)
  from clean_columns_text_Inr [OF Inr] obtain N DS S where
    cols: "map_of data ''Course Name'' = Some N" "map_of data ''Course Description'' = Some DS"
      "map_of data ''Skills'' = Some S"
      "map_of data1 ''Course Name'' = Some (map clean_cell N)"
      "map_of data1 ''Course Description'' = Some (map clean_cell DS)"
      "map_of data1 ''Skills'' = Some (map clean_cell S)"
    and other: "\<forall>k. k \<notin> set text_columns \<longrightarrow> map_of data1 k = map_of data k" by blast
  have "c \<notin> set text_columns"
    using map_None_ne [where f = "map_of data", OF assms(2)] cols(1-3) by (auto simp: text_columns_def)
  with assms(1) have c: "c \<in> set selected_columns" "c \<noteq> ''course_name''" "c \<noteq> ''Course Name''" "c \<noteq> ''tags''"
    "map_of data1 c = None"
    using raw_non_text_columns other assms(2) by auto
  show ?thesis
  proof (cases "map_of data ''Difficulty Level''")
    case None
    then show ?thesis using Inr cols other
      by (simp add: preprocess_data_def preprocess_frame_def text_columns_def)
  next
    case (Some D)
    let ?T = "compose_tags (map clean_cell N) D (map clean_cell DS) (map clean_cell S)"
    have pf: "preprocess_frame stem data =
           py_bind (py_mapM (stem_tag stem) ?T)
             (\<lambda>T'. df_select (df_rename ''Course Name'' ''course_name'' (df_set (df_set data1 ''tags'' ?T) ''tags'' T')) selected_columns)"
      using preprocess_frame_stem_step [OF Inr cols(4-6)] other Some by (simp add: text_columns_def)
    show ?thesis
    proof (cases "py_mapM (stem_tag stem) ?T")
      case (Inl e)
      then show ?thesis using pf by (simp add: preprocess_data_def)
    next
      case (Inr T')
      let ?d3 = "df_rename ''Course Name'' ''course_name'' (df_set (df_set data1 ''tags'' ?T) ''tags'' T')"
      have "map_of ?d3 c = None"
        using c by (simp add: map_of_df_rename_other)
      then obtain e where "df_select ?d3 selected_columns = Inl e"
        using df_select_missing [OF c(1)] by blast
      then show ?thesis using pf Inr by (simp add: preprocess_data_def)
    qed
  qed
qed

theorem preprocess_data_missing_column_witness:
  "\<exists>e. preprocess_data id [(''Course Name'', [CStr ''a'']), (''Difficulty Level'', [CStr ''b'']),
      (''Course Description'', [CStr ''c'']), (''Skills'', [CStr ''d''])] = Inl e"
  by (rule preprocess_data_missing_column [where c = "''Course URL''"]) (simp_all add: raw_columns_def)

text \<open>
  C28. Finding (a gap in the specification): a row whose difficulty is missing makes its
  tag NaN, and splitting it raises \<open>AttributeError\<close>; the pipeline stops with that error
  rather than the data-shape error the specification names, and before checking that
  the other columns exist.
\<close>

theorem preprocess_data_NaN_difficulty:
  assumes cols: "map_of data ''Course Name'' = Some N" "map_of data ''Difficulty Level'' = Some D"
      "map_of data ''Course Description'' = Some DS" "map_of data ''Skills'' = Some S"
    and len: "length N = length D" "length DS = length D" "length S = length D"
    and nan: "CNaN \<in> set D"
  shows "preprocess_data stem data = Inl AttributeError"
proof -
  have "{''Course Name'', ''Course Description'', ''Skills''} \<subseteq> dom (map_of data)"
    using cols by auto
  from clean_text_columns [OF this] obtain data1 where
    c1: "clean_columns data text_columns = Inr data1" and
    m1: "\<forall>k. map_of data1 k = (if k \<in> set text_columns then map_option (map clean_cell) (map_of data k) else map_of data k)"
    by blast
  have "CNaN \<in> set (compose_tags (map clean_cell N) D (map clean_cell DS) (map clean_cell S))"
    using compose_tags_has_NaN [OF nan] len by simp
  then have "preprocess_frame stem data = Inl AttributeError"
    using preprocess_frame_stem_step [OF c1] m1 cols by (simp add: text_columns_def stem_tags_NaN)
  then show ?thesis by (simp add: preprocess_data_def)
qed

theorem preprocess_data_NaN_difficulty_witness:
  "preprocess_data id [(''Course Name'', [CStr ''a'', CStr ''b'']), (''Difficulty Level'', [CStr ''Beginner'', CNaN]),
      (''Course Description'', [CStr ''c'', CStr ''d'']), (''Skills'', [CStr ''e'', CStr ''f''])] =
   Inl AttributeError"
  by (rule preprocess_data_NaN_difficulty [where N = "[CStr ''a'', CStr ''b'']"
        and D = "[CStr ''Beginner'', CNaN]" and DS = "[CStr ''c'', CStr ''d'']"
        and S = "[CStr ''e'', CStr ''f'']"]) simp_all

end
