(* ===== verification/Vectorizer.thy ===== *)
theory Vectorizer
  imports Data_Model Normalizer
begin

text \<open>
  The Vectorizer: \<open>CountVectorizer(max_features=5000, stop_words='english')\<close> and its
  \<open>fit_transform(df['tags']).toarray()\<close> in \<open>create_similarity_matrix\<close>
  (CourseRecommendationSystem.py, lines 52-53), as scikit-learn implements them. The
  analyzer lower-cases a document, takes the matches of the token pattern
  \<open>(?u)\b\w\w+\b\<close> (the maximal runs of word characters of length at least 2) and
  drops the stop words. \<open>_count_vocab\<close> collects the features in order of first
  occurrence and raises \<open>ValueError\<close> when there is none; \<open>_sort_features\<close> sorts them;
  \<open>_limit_features\<close> keeps, when there are more than \<open>max_features\<close>, the features at
  the first \<open>max_features\<close> positions of \<open>(-tfs).argsort()\<close>, \<open>tfs\<close> the corpus-wide
  counts, in their sorted order. NumPy's \<open>argsort\<close> is a parameter: any function that
  returns the positions of a list ordered by value is a valid one (\<open>valid_argsort\<close>);
  its default kind (quicksort) does not promise the order of equal values, so
  \<open>stable_argsort\<close> is one valid instance among several. The English stop-word list of
  scikit-learn is not part of the repository and is a parameter.
\<close>

section \<open>Definitions\<close>

text \<open>\<open>re.findall(r'\w+', doc)\<close>: the maximal runs of word characters.\<close>

function word_runs :: "string \<Rightarrow> string list" where
  "word_runs [] = []"
| "word_runs (c # s) =
     (if is_word_char c then (c # takeWhile is_word_char s) # word_runs (dropWhile is_word_char s)
      else word_runs s)"
  by pat_completeness auto
termination
  by (relation "measure length") (auto simp: le_imp_less_Suc length_dropWhile_le)

text \<open>
  \<open>build_analyzer()\<close>: \<open>lowercase=True\<close>, then \<open>\b\w\w+\b\<close> (a maximal run of two word
  characters or more), then the stop-word filter of \<open>_word_ngrams\<close>.
\<close>

definition tokenize :: "string list \<Rightarrow> string \<Rightarrow> string list" where
  "tokenize stop_words doc =
     filter (\<lambda>w. w \<notin> set stop_words) (filter (\<lambda>w. 2 \<le> length w) (word_runs (py_lower doc)))"

text \<open>\<open>_count_vocab\<close>: the analysed documents and the features in order of first occurrence.\<close>

definition empty_vocabulary_msg :: string where
  "empty_vocabulary_msg = ''empty vocabulary; perhaps the documents only contain stop words''"

definition count_vocab :: "string list \<Rightarrow> string list \<Rightarrow> py_error + (string list \<times> string list list)" where
  "count_vocab stop_words docs =
     (let toks = map (tokenize stop_words) docs; vocabulary = py_unique (concat toks) in
      if vocabulary = [] then Inl (ValueError empty_vocabulary_msg) else Inr (vocabulary, toks))"

text \<open>\<open>X.sum(axis=0)\<close>: the count of a feature over the whole corpus.\<close>

definition term_freq :: "string list list \<Rightarrow> string \<Rightarrow> nat" where
  "term_freq toks t = sum_list (map (\<lambda>ts. count_list ts t) toks)"

text \<open>NumPy's \<open>argsort\<close>: positions of the list, in an order of non-decreasing value.\<close>

type_synonym argsort = "int list \<Rightarrow> nat list"

definition valid_argsort :: "int list \<Rightarrow> nat list \<Rightarrow> bool" where
  "valid_argsort vs is \<longleftrightarrow> mset is = mset [0..<length vs] \<and> sorted (map (\<lambda>i. vs ! i) is)"

definition stable_argsort :: argsort where
  "stable_argsort vs = sort_key (\<lambda>i. vs ! i) [0..<length vs]"

definition pruned_msg :: string where
  "pruned_msg = ''After pruning, no terms remain. Try a lower min_df or a higher max_df.''"

text \<open>
  \<open>_limit_features\<close> with \<open>max_df=1.0\<close> and \<open>min_df=1\<close> (which keep every feature): above
  the limit, the features at the first \<open>limit\<close> positions of \<open>(-tfs).argsort()\<close>, in
  feature order.
\<close>

definition limit_features ::
  "argsort \<Rightarrow> nat \<Rightarrow> string list list \<Rightarrow> string list \<Rightarrow> py_error + string list" where
  "limit_features argsort limit toks feats =
     (let kept =
        (if limit < length feats
         then (let mask_inds = take limit (argsort (map (\<lambda>f. - int (term_freq toks f)) feats)) in
               map snd (filter (\<lambda>(i, f). i \<in> set mask_inds) (enumerate 0 feats)))
         else feats) in
      if kept = [] then Inl (ValueError pruned_msg) else Inr kept)"

text \<open>
  \<open>fit_transform(raw_documents).toarray()\<close>: the vocabulary (\<open>get_feature_names_out()\<close>)
  and one count vector per document.
\<close>

definition fit_transform ::
  "argsort \<Rightarrow> string list \<Rightarrow> nat \<Rightarrow> string list \<Rightarrow> py_error + (string list \<times> count_vector list)" where
  "fit_transform argsort stop_words max_features docs =
     py_bind (count_vocab stop_words docs) (\<lambda>(vocabulary, toks).
     py_bind (limit_features argsort max_features toks (sort vocabulary)) (\<lambda>kept.
     Inr (kept, map (\<lambda>ts. map (count_list ts) kept) toks)))"

section \<open>Abstract specification\<close>

text \<open>
  The specification's vocabulary: the features ranked by corpus frequency, ties broken by
  the lexicographic order, the first \<open>limit\<close> of them, in sorted order.
\<close>

definition top_features :: "nat \<Rightarrow> string list list \<Rightarrow> string list \<Rightarrow> string list" where
  "top_features limit toks feats =
     sort (take limit (sort_key (\<lambda>f. (- int (term_freq toks f), f)) feats))"

section \<open>Lemmas\<close>

lemma valid_stable_argsort: "valid_argsort vs (stable_argsort vs)"
  by (simp add: valid_argsort_def stable_argsort_def)

lemma in_set_mask_select:
  "f \<in> set (map snd (filter (\<lambda>(i, f). i \<in> M) (enumerate 0 xs))) \<longleftrightarrow> (\<exists>i<length xs. i \<in> M \<and> xs ! i = f)"
  by (force simp: in_set_enumerate_eq)

lemma sorted_wrt_mask_select:
  "sorted_wrt R xs \<Longrightarrow> sorted_wrt R (map snd (filter P (enumerate k xs)))"
proof (induction xs arbitrary: k)
  case (Cons x xs)
  have "set (map snd (filter P (enumerate (Suc k) xs))) \<subseteq> set xs"
    by (auto simp: in_set_enumerate_eq)
  with Cons show ?case by (auto simp: enumerate_simps)
qed simp

lemma length_mask_select:
  assumes "set M \<subseteq> {..<length xs}" and "distinct M"
  shows "length (map snd (filter (\<lambda>(i, f). i \<in> set M) (enumerate 0 xs))) = length M"
proof -
  have "length (filter (\<lambda>(i, f). i \<in> set M) (enumerate 0 xs)) = card {i. i < length xs \<and> i \<in> set M}"
    unfolding length_filter_conv_card by (rule arg_cong [where f = card]) (auto simp: nth_enumerate_eq)
  also have "{i. i < length xs \<and> i \<in> set M} = set M" using assms(1) by auto
  finally show ?thesis using assms(2) by (simp add: distinct_card)
qed

lemma sorted_take_drop_le:
  assumes "sorted (map h p)" and "a \<in> set (take k p)" and "b \<in> set (drop k p)"
  shows "h a \<le> h b"
proof -
  have "sorted (map h (take k p) @ map h (drop k p))"
    using assms(1) by (simp only: map_append [symmetric] append_take_drop_id)
  then show ?thesis using assms(2,3) by (simp add: sorted_append)
qed

lemma valid_argsort_take:
  assumes "valid_argsort vs p"
  shows "set (take k p) \<subseteq> {..<length vs}" "distinct (take k p)" "length p = length vs"
    "set p = {..<length vs}"
proof -
  have m: "mset p = mset [0..<length vs]" using assms by (simp add: valid_argsort_def)
  then show "set p = {..<length vs}" by (metis atLeast_upt set_mset_mset)
  then show "set (take k p) \<subseteq> {..<length vs}" by (metis set_take_subset)
  show "distinct (take k p)" using m by (metis distinct_take distinct_upt mset_eq_imp_distinct_iff)
  show "length p = length vs" using arg_cong [OF m, of size] by simp
qed

lemma fit_transform_Inr:
  assumes "fit_transform argsort stop_words m docs = Inr (vocab, X)"
  shows "py_unique (concat (map (tokenize stop_words) docs)) \<noteq> []"
    "limit_features argsort m (map (tokenize stop_words) docs)
       (sort (py_unique (concat (map (tokenize stop_words) docs)))) = Inr vocab"
    "X = map (\<lambda>ts. map (count_list ts) vocab) (map (tokenize stop_words) docs)"
  using assms by (auto simp: fit_transform_def count_vocab_def Let_def py_bind_eq_Inr split: if_splits)

lemma limit_features_Inr:
  assumes "limit_features argsort m toks feats = Inr kept"
  shows "kept \<noteq> []"
    "m < length feats \<Longrightarrow> kept = map snd (filter (\<lambda>(i, f). i \<in> set (take m (argsort (map (\<lambda>f. - int (term_freq toks f)) feats))))
                                  (enumerate 0 feats))"
    "\<not> m < length feats \<Longrightarrow> kept = feats"
  using assms by (auto simp: limit_features_def Let_def split: if_splits)

lemma sorted_wrt_sort_py_unique: "sorted_wrt (<) (sort (py_unique xs))"
  by (simp add: strict_sorted_iff distinct_py_unique)

lemma fit_transform_vocabulary_sorted:
  assumes "fit_transform argsort stop_words m docs = Inr (vocab, X)"
  shows "sorted_wrt (<) vocab"
proof -
  let ?feats = "sort (py_unique (concat (map (tokenize stop_words) docs)))"
  note l = limit_features_Inr [OF fit_transform_Inr(2) [OF assms]]
  show ?thesis
  proof (cases "m < length ?feats")
    case True
    show ?thesis unfolding l(2) [OF True] by (rule sorted_wrt_mask_select) (rule sorted_wrt_sort_py_unique)
  next
    case False
    show ?thesis unfolding l(3) [OF False] by (rule sorted_wrt_sort_py_unique)
  qed
qed

lemma fit_transform_counts:
  assumes "fit_transform argsort stop_words m docs = Inr (vocab, X)"
  shows "X = map (\<lambda>d. map (\<lambda>v. count_list (tokenize stop_words d) v) vocab) docs"
  using fit_transform_Inr(3) [OF assms] by simp

text \<open>Ties broken by position become ties broken by the element when the list is strictly sorted.\<close>

lemma sorted_pair_mono_snd:
  assumes "sorted (map (\<lambda>i. (g i, i)) p)"
    and "\<And>i j. i \<in> set p \<Longrightarrow> j \<in> set p \<Longrightarrow> i < j \<Longrightarrow> h i < h j"
  shows "sorted (map (\<lambda>i. (g i, h i)) p)"
proof -
  have "sorted_wrt (\<lambda>i j. (g i, i) \<le> (g j, j)) p" using assms(1) by (simp add: sorted_wrt_map)
  then have "sorted_wrt (\<lambda>i j. (g i, h i) \<le> (g j, h j)) p"
  proof (rule sorted_wrt_mono_rel [rotated])
    fix i j assume "i \<in> set p" "j \<in> set p" "(g i, i) \<le> (g j, j)"
    then show "(g i, h i) \<le> (g j, h j)"
      using assms(2) [of i j] by (cases "i = j") (auto simp: less_eq_prod_def intro: less_imp_le)
  qed
  then show ?thesis by (simp add: sorted_wrt_map)
qed

lemma stable_argsort_features:
  fixes F :: "string list" and tf :: "string \<Rightarrow> nat"
  assumes F: "sorted_wrt (<) F"
  shows "sort_key (\<lambda>f. (- int (tf f), f)) F = map (\<lambda>i. F ! i) (stable_argsort (map (\<lambda>f. - int (tf f)) F))"
proof (rule sort_key_inj_key_eq)
  let ?vs = "map (\<lambda>f. - int (tf f)) F"
  let ?p = "stable_argsort ?vs"
  have v: "valid_argsort ?vs ?p" by (rule valid_stable_argsort)
  have "mset ?p = mset [0..<length F]" using v by (simp add: valid_argsort_def)
  then have "mset (map (\<lambda>i. F ! i) ?p) = mset (map (\<lambda>i. F ! i) [0..<length F])"
    by (metis mset_map)
  then show "mset F = mset (map (\<lambda>i. F ! i) ?p)" by (simp add: map_nth)
  show "inj_on (\<lambda>f. (- int (tf f), f)) (set F)" by (rule inj_onI) simp
  have "?p = sort_key (\<lambda>i. (?vs ! i, i)) [0..<length ?vs]"
    unfolding stable_argsort_def by (rule sort_key_tie_break [symmetric]) simp
  then have s: "sorted (map (\<lambda>i. (?vs ! i, i)) ?p)" by simp
  have "sorted (map (\<lambda>i. (?vs ! i, F ! i)) ?p)"
  proof (rule sorted_pair_mono_snd [OF s])
    fix i j assume "i \<in> set ?p" "j \<in> set ?p" "i < j"
    then show "F ! i < F ! j"
      using valid_argsort_take(4) [OF v] F by (simp add: sorted_wrt_nth_less)
  qed
  moreover have "\<forall>i\<in>set ?p. ?vs ! i = - int (tf (F ! i))"
    using valid_argsort_take(4) [OF v] by simp
  ultimately show "sorted (map (\<lambda>f. (- int (tf f), f)) (map (\<lambda>i. F ! i) ?p))"
    by (simp add: comp_def cong: map_cong)
qed

lemma set_mask_select:
  assumes "set M \<subseteq> {..<length xs}"
  shows "set (map snd (filter (\<lambda>(i, f). i \<in> set M) (enumerate 0 xs))) = (\<lambda>i. xs ! i) ` set M"
proof (rule set_eqI)
  fix f
  show "f \<in> set (map snd (filter (\<lambda>(i, f). i \<in> set M) (enumerate 0 xs))) \<longleftrightarrow> f \<in> (\<lambda>i. xs ! i) ` set M"
    unfolding in_set_mask_select using assms by auto
qed

lemma sort_key_features_mset:
  fixes tf :: "string \<Rightarrow> nat"
  assumes "mset U = mset F"
  shows "sort_key (\<lambda>f. (- int (tf f), f)) U = sort_key (\<lambda>f. (- int (tf f), f)) F"
  by (rule sort_key_inj_key_eq) (simp_all add: assms inj_on_def)

text \<open>Exchanging two positions of equal value in a valid \<open>argsort\<close> gives a valid one.\<close>

lemma valid_argsort_swap:
  assumes v: "valid_argsort vs p" and ab: "a < length vs" "b < length vs" and eq: "vs ! a = vs ! b"
  shows "valid_argsort vs (map (\<lambda>k. if k = a then b else if k = b then a else k) p)"
proof -
  let ?s = "\<lambda>k::nat. if k = a then b else if k = b then a else k"
  have inj: "inj ?s" by (rule injI) (auto split: if_splits)
  have "set (map ?s [0..<length vs]) = set [0..<length vs]"
    using ab by (auto simp: image_iff)
  moreover have "distinct (map ?s [0..<length vs])"
    using inj by (simp add: distinct_map inj_on_subset [OF inj])
  ultimately have "mset (map ?s [0..<length vs]) = mset [0..<length vs]"
    using set_eq_iff_mset_eq_distinct [of "map ?s [0..<length vs]" "[0..<length vs]"] by simp
  moreover have "mset p = mset [0..<length vs]" using v by (simp add: valid_argsort_def)
  ultimately have m: "mset (map ?s p) = mset [0..<length vs]" by (metis mset_map)
  have e: "map (\<lambda>i. vs ! i) (map ?s p) = map (\<lambda>i. vs ! i) p"
    using eq by (auto intro: map_cong)
  have "sorted (map (\<lambda>i. vs ! i) (map ?s p))"
    unfolding e using v by (simp add: valid_argsort_def)
  then show ?thesis unfolding valid_argsort_def by (intro conjI m)
qed

text \<open>
  A kept feature and a dropped token of the corpus: the vocabulary was cut, the feature
  sits at a kept position of the \<open>argsort\<close> and the token at a dropped one.
\<close>

lemma fit_transform_cut_positions:
  assumes "\<forall>vs. valid_argsort vs (argsort vs)"
    and "fit_transform argsort stop_words m docs = Inr (vocab, X)"
    and "f \<in> set vocab" and "g \<in> set (concat (map (tokenize stop_words) docs))" and "g \<notin> set vocab"
  defines "F \<equiv> sort (py_unique (concat (map (tokenize stop_words) docs)))"
    and "p \<equiv> argsort (map (\<lambda>f. - int (term_freq (map (tokenize stop_words) docs) f))
                  (sort (py_unique (concat (map (tokenize stop_words) docs)))))"
  shows "m < length F \<and> vocab = map snd (filter (\<lambda>(i, f). i \<in> set (take m p)) (enumerate 0 F)) \<and>
         (\<exists>a<length F. a \<in> set (take m p) \<and> F ! a = f) \<and>
         (\<exists>b<length F. b \<in> set (drop m p) \<and> F ! b = g)"
proof -
  note l = limit_features_Inr [OF fit_transform_Inr(2) [OF assms(2)], folded F_def p_def]
  have gF: "g \<in> set F" using assms(4) by (simp add: F_def set_py_unique)
  have cut: "m < length F" using l(3) gF assms(5) by fastforce
  have v: "valid_argsort (map (\<lambda>f. - int (term_freq (map (tokenize stop_words) docs) f)) F) p"
    using assms(1) by (simp add: p_def F_def)
  have vocab: "vocab = map snd (filter (\<lambda>(i, f). i \<in> set (take m p)) (enumerate 0 F))"
    by (rule l(2) [OF cut])
  have a: "\<exists>a<length F. a \<in> set (take m p) \<and> F ! a = f"
    using assms(3) unfolding vocab in_set_mask_select by blast
  obtain b where b: "b < length F" "F ! b = g"
    using gF by (metis in_set_conv_nth)
  have "b \<notin> set (take m p)"
    using assms(5) b unfolding vocab in_set_mask_select by blast
  moreover have "b \<in> set p" using b(1) valid_argsort_take(4) [OF v] by simp
  ultimately have "b \<in> set (drop m p)"
    by (metis Un_iff append_take_drop_id set_append)
  with cut vocab a b show ?thesis by blast
qed

text \<open>The features at the positions of a list in which \<open>a\<close> and \<open>b\<close> are exchanged.\<close>

lemma swap_nth_image:
  assumes "distinct F" and "a < length F" "b < length F" and "set t \<subseteq> {..<length F}"
    and "a \<in> set t" "b \<notin> set t"
  shows "F ! b \<in> (\<lambda>i. F ! i) ` (\<lambda>k. if k = a then b else if k = b then a else k) ` set t \<and>
         F ! a \<notin> (\<lambda>i. F ! i) ` (\<lambda>k. if k = a then b else if k = b then a else k) ` set t"
proof
  show "F ! b \<in> (\<lambda>i. F ! i) ` (\<lambda>k. if k = a then b else if k = b then a else k) ` set t"
    using assms(5) by force
  show "F ! a \<notin> (\<lambda>i. F ! i) ` (\<lambda>k. if k = a then b else if k = b then a else k) ` set t"
  proof
    assume "F ! a \<in> (\<lambda>i. F ! i) ` (\<lambda>k. if k = a then b else if k = b then a else k) ` set t"
    then obtain k where k: "k \<in> set t" "F ! (if k = a then b else if k = b then a else k) = F ! a" by auto
    have "k < length F" using k(1) assms(4) by auto
    then have "(if k = a then b else if k = b then a else k) = a"
      using k(2) assms(1-3) by (auto simp: nth_eq_iff_index_eq split: if_splits)
    then have "k = b" by (auto split: if_splits)
    with k(1) assms(6) show False by simp
  qed
qed

text \<open>Above the limit, the result is the features at the kept positions, when there is one.\<close>

lemma fit_transform_above_limit:
  assumes "py_unique (concat (map (tokenize stop_words) docs)) \<noteq> []"
    and "m < length (sort (py_unique (concat (map (tokenize stop_words) docs))))"
    and "map snd (filter (\<lambda>(i, f). i \<in> set (take m (argsort (map (\<lambda>f. - int (term_freq (map (tokenize stop_words) docs) f))
            (sort (py_unique (concat (map (tokenize stop_words) docs)))))))) (enumerate 0 (sort (py_unique (concat (map (tokenize stop_words) docs)))))) = kept"
    and "kept \<noteq> []"
  shows "fit_transform argsort stop_words m docs = Inr (kept, map (\<lambda>ts. map (count_list ts) kept) (map (tokenize stop_words) docs))"
  using assms(1,2) assms(4) [folded assms(3)] unfolding assms(3) [symmetric]
  by (simp add: fit_transform_def count_vocab_def limit_features_def Let_def)

lemmas vectorizer_eval = fit_transform_def count_vocab_def limit_features_def term_freq_def tokenize_def
  stable_argsort_def py_unique_def py_lower_def py_lower_char_def ascii_upper_def
  ascii_lower_def is_word_char_def empty_vocabulary_msg_def pruned_msg_def

section \<open>Properties\<close>

text \<open>
  C29. Bound on the vocabulary: with a valid \<open>argsort\<close>, the vocabulary has
  \<open>min(max_features, number of distinct tokens)\<close> features, in strictly increasing
  order (so without repetition).
\<close>

theorem fit_transform_vocabulary:
  assumes "\<forall>vs. valid_argsort vs (argsort vs)"
    and "fit_transform argsort stop_words m docs = Inr (vocab, X)"
  shows "length vocab = min m (length (py_unique (concat (map (tokenize stop_words) docs)))) \<and>
         sorted_wrt (<) vocab"
proof -
  let ?toks = "map (tokenize stop_words) docs"
  let ?feats = "sort (py_unique (concat ?toks))"
  let ?vs = "map (\<lambda>f. - int (term_freq ?toks f)) ?feats"
  note l = limit_features_Inr [OF fit_transform_Inr(2) [OF assms(2)]]
  have "length vocab = min m (length (py_unique (concat ?toks)))"
  proof (cases "m < length ?feats")
    case True
    have v: "valid_argsort ?vs (argsort ?vs)" using assms(1) by blast
    have len: "length (take m (argsort ?vs)) = m"
      using True valid_argsort_take(3) [OF v] by simp
    have sub: "set (take m (argsort ?vs)) \<subseteq> {..<length ?feats}"
      using valid_argsort_take(1) [OF v, of m] by simp
    have "length (map snd (filter (\<lambda>(i, f). i \<in> set (take m (argsort ?vs))) (enumerate 0 ?feats))) =
          length (take m (argsort ?vs))"
      by (rule length_mask_select [OF sub valid_argsort_take(2) [OF v]])
    then have "length vocab = m"
      using len l(2) [OF True] by simp
    then show ?thesis using True by simp
  next
    case False
    then show ?thesis using l(3) [OF False] by simp
  qed
  with fit_transform_vocabulary_sorted [OF assms(2)] show ?thesis by simp
qed

theorem fit_transform_vocabulary_witness:
  "fit_transform stable_argsort [''the''] 2 [''the Python, data python'', ''opera''] =
     Inr ([''data'', ''python''], [[1, 2], [0, 0]]) \<and>
   length [''data'', ''python''] = min 2 (length (py_unique (concat (map (tokenize [''the'']) [''the Python, data python'', ''opera''])))) \<and>
   sorted_wrt (<) [''data'', ''python'']"
proof -
  have r: "fit_transform stable_argsort [''the''] 2 [''the Python, data python'', ''opera''] =
     Inr ([''data'', ''python''], [[1, 2], [0, 0]])"
    by (simp add: vectorizer_eval)
  show ?thesis using r fit_transform_vocabulary [OF _ r] valid_stable_argsort by simp
qed

text \<open>
  C30. Selection by frequency: with a valid \<open>argsort\<close>, a token of the corpus that is
  left out of the vocabulary occurs in the corpus no more often than any feature kept.
\<close>

theorem fit_transform_keeps_most_frequent:
  assumes "\<forall>vs. valid_argsort vs (argsort vs)"
    and "fit_transform argsort stop_words m docs = Inr (vocab, X)"
    and "f \<in> set vocab" and "g \<in> set (concat (map (tokenize stop_words) docs))" and "g \<notin> set vocab"
  shows "term_freq (map (tokenize stop_words) docs) g \<le> term_freq (map (tokenize stop_words) docs) f"
proof -
  let ?toks = "map (tokenize stop_words) docs"
  let ?F = "sort (py_unique (concat ?toks))"
  let ?vs = "map (\<lambda>f. - int (term_freq ?toks f)) ?F"
  let ?p = "argsort ?vs"
  obtain i j where i: "i < length ?F" "i \<in> set (take m ?p)" "?F ! i = f"
    and j: "j < length ?F" "j \<in> set (drop m ?p)" "?F ! j = g"
    using fit_transform_cut_positions [OF assms] by blast
  have "valid_argsort ?vs ?p" using assms(1) by blast
  then have "?vs ! i \<le> ?vs ! j"
    using sorted_take_drop_le [of "\<lambda>i. ?vs ! i" ?p] i(2) j(2) by (simp add: valid_argsort_def)
  then show ?thesis using i j by simp
qed

theorem fit_transform_keeps_most_frequent_witness:
  "fit_transform stable_argsort [] 1 [''data python python''] = Inr ([''python''], [[2]]) \<and>
   term_freq [tokenize [] ''data python python''] ''data'' \<le> term_freq [tokenize [] ''data python python''] ''python''"
proof -
  have r: "fit_transform stable_argsort [] 1 [''data python python''] = Inr ([''python''], [[2]])"
    by (simp add: vectorizer_eval)
  have "term_freq (map (tokenize []) [''data python python'']) ''data'' \<le>
        term_freq (map (tokenize []) [''data python python'']) ''python''"
    by (rule fit_transform_keeps_most_frequent [OF _ r]) (simp_all add: valid_stable_argsort vectorizer_eval del: stable_argsort_def)
  then show ?thesis using r by simp
qed

text \<open>
  C31. Equivalence with the specification's vocabulary: with a stable \<open>argsort\<close>, the
  vocabulary is the specification's: the \<open>max_features\<close> most frequent tokens, ties
  broken lexicographically, in sorted order.
\<close>

theorem fit_transform_stable_top_features:
  assumes "fit_transform stable_argsort stop_words m docs = Inr (vocab, X)"
  shows "vocab = top_features m (map (tokenize stop_words) docs) (py_unique (concat (map (tokenize stop_words) docs)))"
proof -
  let ?toks = "map (tokenize stop_words) docs"
  let ?U = "py_unique (concat ?toks)"
  let ?F = "sort ?U"
  let ?key = "\<lambda>f. (- int (term_freq ?toks f), f)"
  let ?vs = "map (\<lambda>f. - int (term_freq ?toks f)) ?F"
  let ?p = "stable_argsort ?vs"
  note l = limit_features_Inr [OF fit_transform_Inr(2) [OF assms]]
  have F: "sorted_wrt (<) ?F" by (rule sorted_wrt_sort_py_unique)
  have keyU: "sort_key ?key ?U = map (\<lambda>i. ?F ! i) ?p"
    using sort_key_features_mset [of ?U ?F] stable_argsort_features [OF F] by simp
  have v: "valid_argsort ?vs ?p" by (rule valid_stable_argsort)
  show ?thesis
  proof (cases "m < length ?F")
    case True
    let ?t = "take m ?p"
    have sub: "set ?t \<subseteq> {..<length ?F}" using valid_argsort_take(1) [OF v] by simp
    have top: "top_features m ?toks ?U = sort (map (\<lambda>i. ?F ! i) ?t)"
      by (simp add: top_features_def keyU take_map)
    have vocab: "vocab = map snd (filter (\<lambda>(i, f). i \<in> set ?t) (enumerate 0 ?F))"
      by (rule l(2) [OF True])
    have "set vocab = (\<lambda>i. ?F ! i) ` set ?t"
      unfolding vocab by (rule set_mask_select [OF sub])
    moreover have "sorted_wrt (<) vocab"
      unfolding vocab by (rule sorted_wrt_mask_select [OF F])
    moreover have "distinct (map (\<lambda>i. ?F ! i) ?t)"
    proof -
      have "distinct ?F" by (simp add: distinct_py_unique)
      then have "inj_on (\<lambda>i. ?F ! i) (set ?t)"
        using sub inj_on_nth [of ?F "set ?t"] by auto
      then show ?thesis using valid_argsort_take(2) [OF v] by (simp add: distinct_map)
    qed
    ultimately show ?thesis unfolding top
      by (intro sorted_distinct_set_unique) (simp_all add: strict_sorted_iff)
  next
    case False
    have "top_features m ?toks ?U = sort (sort_key ?key ?U)"
      using False by (simp add: top_features_def)
    also have "\<dots> = ?F" by (rule properties_for_sort) simp_all
    finally show ?thesis using l(3) [OF False] by simp
  qed
qed

theorem fit_transform_stable_top_features_witness:
  "fit_transform stable_argsort [] 2 [''opera data python'', ''python data''] =
     Inr ([''data'', ''python''], [[1, 1], [1, 1]]) \<and>
   [''data'', ''python''] = top_features 2 (map (tokenize []) [''opera data python'', ''python data''])
     (py_unique (concat (map (tokenize []) [''opera data python'', ''python data''])))"
proof -
  have r: "fit_transform stable_argsort [] 2 [''opera data python'', ''python data''] =
     Inr ([''data'', ''python''], [[1, 1], [1, 1]])"
    by (simp add: vectorizer_eval)
  show ?thesis using r fit_transform_stable_top_features [OF r] by simp
qed

text \<open>
  C32. Error behaviour: \<open>fit_transform\<close> raises the empty-vocabulary \<open>ValueError\<close>
  exactly when no document has a token left (only stop words and one-character words).
\<close>

theorem fit_transform_empty_vocabulary:
  "fit_transform argsort stop_words m docs = Inl (ValueError empty_vocabulary_msg) \<longleftrightarrow>
     (\<forall>d\<in>set docs. tokenize stop_words d = [])"
  by (auto simp: fit_transform_def count_vocab_def limit_features_def Let_def empty_vocabulary_msg_def
      pruned_msg_def py_unique_def split: if_splits)

theorem fit_transform_empty_vocabulary_witness:
  "fit_transform stable_argsort [''the''] 5000 [''the a'', ''I''] = Inl (ValueError empty_vocabulary_msg)"
proof -
  have "\<forall>d\<in>set [''the a'', ''I'']. tokenize [''the''] d = []" by (simp add: vectorizer_eval)
  then show ?thesis using fit_transform_empty_vocabulary by blast
qed

text \<open>
  C33. Finding: the specification breaks ties in the frequency ranking lexicographically,
  but \<open>_limit_features\<close> keeps the first positions of NumPy's default \<open>argsort\<close>,
  which does not fix the order of equal values. Whenever a kept feature and a dropped
  token have the same corpus count, another valid \<open>argsort\<close> of the same counts keeps
  the dropped token instead: the vocabulary is not determined by the counts.
\<close>

theorem vocabulary_tie_break_unspecified:
  assumes "\<forall>vs. valid_argsort vs (argsort vs)"
    and "fit_transform argsort stop_words m docs = Inr (vocab, X)"
    and "f \<in> set vocab" and "g \<in> set (concat (map (tokenize stop_words) docs))" and "g \<notin> set vocab"
    and "term_freq (map (tokenize stop_words) docs) f = term_freq (map (tokenize stop_words) docs) g"
  shows "\<exists>argsort'. (\<forall>vs. valid_argsort vs (argsort' vs)) \<and>
           (\<exists>vocab' X'. fit_transform argsort' stop_words m docs = Inr (vocab', X') \<and>
                        g \<in> set vocab' \<and> f \<notin> set vocab')"
proof -
  let ?toks = "map (tokenize stop_words) docs"
  let ?F = "sort (py_unique (concat ?toks))"
  let ?vs = "map (\<lambda>f. - int (term_freq ?toks f)) ?F"
  let ?p = "argsort ?vs"
  obtain a b where cut: "m < length ?F" and a: "a < length ?F" "a \<in> set (take m ?p)" "?F ! a = f"
    and b: "b < length ?F" "b \<in> set (drop m ?p)" "?F ! b = g"
    using fit_transform_cut_positions [OF assms(1-5)] by blast
  have v: "valid_argsort ?vs ?p" using assms(1) by blast
  have bt: "b \<notin> set (take m ?p)"
    using b(2) valid_argsort_take(2) [OF v, of "length ?p"]
    by (metis append_take_drop_id distinct_append disjoint_iff take_all_iff order_refl)
  let ?s = "\<lambda>k::nat. if k = a then b else if k = b then a else k"
  let ?p' = "map ?s ?p"
  define argsort' where "argsort' = (\<lambda>vs. if vs = ?vs then ?p' else argsort vs)"
  have v': "valid_argsort ?vs ?p'"
    by (rule valid_argsort_swap [OF v]) (use a b assms(6) in simp_all)
  have valid: "\<forall>vs. valid_argsort vs (argsort' vs)"
    using assms(1) v' by (simp add: argsort'_def)
  have sub: "set (take m ?p') \<subseteq> {..<length ?F}" using valid_argsort_take(1) [OF v'] by simp
  let ?kept = "map snd (filter (\<lambda>(i, f). i \<in> set (take m ?p')) (enumerate 0 ?F))"
  have kept: "set ?kept = (\<lambda>i. ?F ! i) ` ?s ` set (take m ?p)"
    using set_mask_select [OF sub] by (simp add: take_map image_image)
  have "set (take m ?p) \<subseteq> {..<length ?F}" using valid_argsort_take(1) [OF v] by simp
  from swap_nth_image [OF _ a(1) b(1) this a(2) bt] have "g \<in> set ?kept" "f \<notin> set ?kept"
    unfolding kept a(3) b(3) by (simp_all add: distinct_py_unique)
  moreover have "fit_transform argsort' stop_words m docs = Inr (?kept, map (\<lambda>ts. map (count_list ts) ?kept) ?toks)"
  proof (rule fit_transform_above_limit)
    show "?kept \<noteq> []" using \<open>g \<in> set ?kept\<close> by (metis empty_iff empty_set)
  qed (use fit_transform_Inr(1) [OF assms(2)] cut in \<open>simp_all add: argsort'_def\<close>)
  ultimately show ?thesis using valid by blast
qed

theorem vocabulary_tie_break_unspecified_witness:
  "fit_transform stable_argsort [] 1 [''ab cd''] = Inr ([''ab''], [[1]]) \<and>
   (\<exists>argsort'. (\<forall>vs. valid_argsort vs (argsort' vs)) \<and>
      (\<exists>vocab' X'. fit_transform argsort' [] 1 [''ab cd''] = Inr (vocab', X') \<and>
                   ''cd'' \<in> set vocab' \<and> ''ab'' \<notin> set vocab'))"
proof -
  have r: "fit_transform stable_argsort [] 1 [''ab cd''] = Inr ([''ab''], [[1]])"
    by (simp add: vectorizer_eval)
  have va: "\<forall>vs. valid_argsort vs (stable_argsort vs)" using valid_stable_argsort by blast
  have "\<exists>argsort'. (\<forall>vs. valid_argsort vs (argsort' vs)) \<and>
      (\<exists>vocab' X'. fit_transform argsort' [] 1 [''ab cd''] = Inr (vocab', X') \<and>
                   ''cd'' \<in> set vocab' \<and> ''ab'' \<notin> set vocab')"
    by (rule vocabulary_tie_break_unspecified [OF va r]) (simp_all add: vectorizer_eval del: stable_argsort_def)
  with r show ?thesis by blast
qed

end
