(* ===== verification/Similarity.thy ===== *)
theory Similarity
  imports Data_Model
begin

text \<open>
  The Similarity Builder: \<open>cosine_similarity(vectors)\<close> of
  CourseRecommendationSystem.py, line 55, as scikit-learn computes it: each count vector
  is L2-normalised (\<open>sklearn.preprocessing.normalize\<close>, which leaves a zero row as it
  is by dividing by 1 where the norm is 0) and the matrix is the product of the
  normalised rows with their transpose. Count vectors are lists of naturals (the
  \<open>toarray()\<close> of \<open>CountVectorizer\<close>), floats are reals. The lemmas show that the
  result is symmetric, within [0, 1], has 1 on the diagonal except for an empty
  document, and equals the specification's formula (dot product over the product of the
  norms, 0 when a norm is 0); the bound rests on the Cauchy-Schwarz inequality for lists.
\<close>

section \<open>Definitions\<close>

definition dot :: "real list \<Rightarrow> real list \<Rightarrow> real" where
  "dot a b = sum_list (map2 (*) a b)"

definition l2_norm :: "real list \<Rightarrow> real" where
  "l2_norm a = sqrt (dot a a)"

text \<open>\<open>normalize(X, norm='l2')\<close> on one row: a zero norm is replaced by 1.\<close>

definition normalize_row :: "real list \<Rightarrow> real list" where
  "normalize_row a = (let n = l2_norm a in map (\<lambda>x. x / (if n = 0 then 1 else n)) a)"

text \<open>\<open>cosine_similarity(X)\<close>: \<open>K = normalize(X) @ normalize(X).T\<close>.\<close>

definition cosine_similarity :: "count_vector list \<Rightarrow> matrix" where
  "cosine_similarity vectors =
     (let xn = map (\<lambda>v. normalize_row (map real v)) vectors in map (\<lambda>u. map (dot u) xn) xn)"

section \<open>Abstract specification\<close>

text \<open>The specification's cosine: dot product over the product of the norms, 0 for a zero norm.\<close>

definition cosine_spec :: "real list \<Rightarrow> real list \<Rightarrow> real" where
  "cosine_spec a b = (if l2_norm a = 0 \<or> l2_norm b = 0 then 0 else dot a b / (l2_norm a * l2_norm b))"

section \<open>Lemmas on the dot product\<close>

lemma dot_Nil [simp]: "dot [] b = 0" "dot a [] = 0"
  by (simp_all add: dot_def)

lemma dot_Cons [simp]: "dot (x # xs) (y # ys) = x * y + dot xs ys"
  by (simp add: dot_def)

lemma dot_commute: "dot a b = dot b a"
  by (induction a b rule: list_induct2') (simp_all add: mult.commute)

lemma dot_self_nonneg: "0 \<le> dot a a"
  by (induction a) simp_all

lemma dot_nonneg: "(\<forall>x\<in>set a. 0 \<le> x) \<Longrightarrow> (\<forall>y\<in>set b. 0 \<le> y) \<Longrightarrow> 0 \<le> dot a b"
  by (induction a b rule: list_induct2') simp_all

lemma dot_divide: "dot (map (\<lambda>x. x / c) a) (map (\<lambda>y. y / d) b) = dot a b / (c * d)"
  by (induction a b rule: list_induct2') (simp_all add: add_divide_distrib)

text \<open>The step of the Cauchy-Schwarz induction: \<open>2xyC \<le> x\<^sup>2B + y\<^sup>2A\<close> when \<open>C\<^sup>2 \<le> AB\<close>.\<close>

lemma cs_step:
  fixes x y A B C :: real
  assumes "C\<^sup>2 \<le> A * B" and "0 \<le> A" and "0 \<le> B"
  shows "2 * x * y * C \<le> x\<^sup>2 * B + y\<^sup>2 * A"
proof -
  have "(2 * x * y * C)\<^sup>2 = 4 * x\<^sup>2 * y\<^sup>2 * C\<^sup>2" by (simp add: power_mult_distrib)
  also have "\<dots> \<le> 4 * x\<^sup>2 * y\<^sup>2 * (A * B)"
    using assms(1) by (intro mult_left_mono) simp_all
  also have "\<dots> \<le> (x\<^sup>2 * B + y\<^sup>2 * A)\<^sup>2"
  proof -
    have "0 \<le> (x\<^sup>2 * B - y\<^sup>2 * A)\<^sup>2" by simp
    then show ?thesis by (simp add: power2_eq_square algebra_simps)
  qed
  finally have "(2 * x * y * C)\<^sup>2 \<le> (x\<^sup>2 * B + y\<^sup>2 * A)\<^sup>2" .
  moreover have "0 \<le> x\<^sup>2 * B + y\<^sup>2 * A" using assms(2,3) by simp
  ultimately show ?thesis by (rule power2_le_imp_le)
qed

lemma cauchy_schwarz_sq: "(dot a b)\<^sup>2 \<le> dot a a * dot b b"
proof (induction a b rule: list_induct2')
  case 1
  then show ?case by simp
next
  case (2 x xs)
  then show ?case by (simp add: dot_self_nonneg)
next
  case (3 y ys)
  then show ?case by simp
next
  case (4 x xs y ys)
  let ?A = "dot xs xs" and ?B = "dot ys ys" and ?C = "dot xs ys"
  have step: "2 * x * y * ?C \<le> x\<^sup>2 * ?B + y\<^sup>2 * ?A"
    using "4.IH" dot_self_nonneg by (intro cs_step) simp_all
  have "(x * y + ?C)\<^sup>2 = x\<^sup>2 * y\<^sup>2 + 2 * x * y * ?C + ?C\<^sup>2"
    by (simp add: power2_eq_square algebra_simps)
  also have "\<dots> \<le> x\<^sup>2 * y\<^sup>2 + (x\<^sup>2 * ?B + y\<^sup>2 * ?A) + ?A * ?B"
    using step "4.IH" by linarith
  also have "\<dots> = (x * x + ?A) * (y * y + ?B)"
    by (simp add: power2_eq_square algebra_simps)
  finally show ?case by simp
qed

lemma cauchy_schwarz: "\<bar>dot a b\<bar> \<le> l2_norm a * l2_norm b"
proof -
  have "sqrt ((dot a b)\<^sup>2) \<le> sqrt (dot a a * dot b b)"
    using cauchy_schwarz_sq by (rule real_sqrt_le_mono)
  then show ?thesis by (simp add: l2_norm_def real_sqrt_mult)
qed

lemma l2_norm_nonneg: "0 \<le> l2_norm a"
  by (simp add: l2_norm_def dot_self_nonneg)

lemma l2_norm_sq: "l2_norm a * l2_norm a = dot a a"
  by (simp add: l2_norm_def dot_self_nonneg)

lemma dot_zero_norm: "l2_norm a = 0 \<Longrightarrow> dot a b = 0"
  using cauchy_schwarz [of a b] by simp

lemma l2_norm_counts_zero: "l2_norm (map real v) = 0 \<longleftrightarrow> sum_list v = 0"
proof -
  have "dot (map real v) (map real v) = 0 \<longleftrightarrow> sum_list v = 0"
  proof (induction v)
    case Nil
    then show ?case by simp
  next
    case (Cons x xs)
    have "0 \<le> dot (map real xs) (map real xs)" by (rule dot_self_nonneg)
    moreover have "0 \<le> real x * real x" by simp
    ultimately show ?case using Cons.IH by (simp add: add_nonneg_eq_0_iff)
  qed
  then show ?thesis by (simp add: l2_norm_def)
qed

section \<open>Lemmas on one entry\<close>

text \<open>One entry of the product of the normalised rows is the specification's cosine.\<close>

lemma dot_normalize_row: "dot (normalize_row a) (normalize_row b) = cosine_spec a b"
proof -
  let ?na = "l2_norm a" and ?nb = "l2_norm b"
  have "dot (normalize_row a) (normalize_row b) =
          dot a b / ((if ?na = 0 then 1 else ?na) * (if ?nb = 0 then 1 else ?nb))"
    by (simp add: normalize_row_def Let_def dot_divide)
  moreover have "?na = 0 \<Longrightarrow> dot a b = 0" by (rule dot_zero_norm)
  moreover have "?nb = 0 \<Longrightarrow> dot a b = 0" by (subst dot_commute) (rule dot_zero_norm)
  ultimately show ?thesis by (simp add: cosine_spec_def)
qed

lemma cosine_spec_commute: "cosine_spec a b = cosine_spec b a"
  by (simp add: cosine_spec_def dot_commute mult.commute)

lemma cosine_spec_bounds:
  assumes "\<forall>x\<in>set a. 0 \<le> x" and "\<forall>y\<in>set b. 0 \<le> y"
  shows "0 \<le> cosine_spec a b \<and> cosine_spec a b \<le> 1"
proof (cases "l2_norm a = 0 \<or> l2_norm b = 0")
  case True
  then show ?thesis by (simp add: cosine_spec_def)
next
  case False
  then have pos: "0 < l2_norm a * l2_norm b"
    using l2_norm_nonneg [of a] l2_norm_nonneg [of b] by (simp add: less_le)
  have "0 \<le> dot a b" using assms by (rule dot_nonneg)
  moreover have "dot a b \<le> l2_norm a * l2_norm b"
    using cauchy_schwarz [of a b] by linarith
  ultimately show ?thesis
    using False pos by (simp add: cosine_spec_def divide_le_eq_1)
qed

lemma cosine_spec_self: "cosine_spec a a = (if l2_norm a = 0 then 0 else 1)"
  by (simp add: cosine_spec_def l2_norm_sq [symmetric])

lemma cosine_similarity_nth:
  assumes "i < length vs" and "j < length vs"
  shows "cosine_similarity vs ! i ! j = cosine_spec (map real (vs ! i)) (map real (vs ! j))"
  using assms by (simp add: cosine_similarity_def Let_def dot_normalize_row)

lemmas similarity_eval = cosine_similarity_def normalize_row_def l2_norm_def dot_def Let_def

section \<open>Properties\<close>

text \<open>
  C9. Equivalence: every entry of scikit-learn's normalise-then-multiply matrix is the
  specification's cosine of the two count vectors (0 when either norm is 0).
\<close>

theorem cosine_similarity_formula:
  assumes "i < length vs" and "j < length vs"
  shows "cosine_similarity vs ! i ! j = cosine_spec (map real (vs ! i)) (map real (vs ! j))"
  using assms by (rule cosine_similarity_nth)

theorem cosine_similarity_formula_witness:
  "cosine_similarity [[3, 4], [4, 3], [0, 0]] ! 0 ! 1 = cosine_spec [3, 4] [4, 3] \<and>
   cosine_spec [3, 4] [4, 3] = 24 / 25"
proof -
  have "cosine_similarity [[3, 4], [4, 3], [0, 0]] ! 0 ! 1 =
          cosine_spec (map real ([[3, 4], [4, 3], [0, 0]] ! 0)) (map real ([[3, 4], [4, 3], [0, 0]] ! 1))"
    by (rule cosine_similarity_formula) simp_all
  moreover have "cosine_spec [3, 4] [4, 3] = 24 / 25"
    by (simp add: cosine_spec_def l2_norm_def dot_def)
  ultimately show ?thesis by simp
qed

text \<open>C10. Symmetry: entry (i, j) equals entry (j, i).\<close>

theorem cosine_similarity_symmetric:
  assumes "i < length vs" and "j < length vs"
  shows "cosine_similarity vs ! i ! j = cosine_similarity vs ! j ! i"
  using assms by (simp add: cosine_similarity_nth cosine_spec_commute)

theorem cosine_similarity_symmetric_witness:
  "cosine_similarity [[3, 4], [4, 3], [0, 0]] ! 0 ! 1 = cosine_similarity [[3, 4], [4, 3], [0, 0]] ! 1 ! 0"
  by (rule cosine_similarity_symmetric) simp_all

text \<open>C11. Bounds: every entry lies in [0, 1], because counts are non-negative.\<close>

theorem cosine_similarity_bounds:
  assumes "i < length vs" and "j < length vs"
  shows "0 \<le> cosine_similarity vs ! i ! j \<and> cosine_similarity vs ! i ! j \<le> 1"
  using assms by (simp add: cosine_similarity_nth cosine_spec_bounds)

theorem cosine_similarity_bounds_witness:
  "0 \<le> cosine_similarity [[3, 4], [4, 3], [0, 0]] ! 1 ! 2 \<and>
   cosine_similarity [[3, 4], [4, 3], [0, 0]] ! 1 ! 2 \<le> 1"
  by (rule cosine_similarity_bounds) simp_all

text \<open>
  C12. Diagonal: a document's similarity with itself is 1, except for a document with no
  counted token (empty or all stop words), whose diagonal entry is 0.
\<close>

theorem cosine_similarity_diagonal:
  assumes "i < length vs"
  shows "cosine_similarity vs ! i ! i = (if sum_list (vs ! i) = 0 then 0 else 1)"
  using assms by (simp add: cosine_similarity_nth cosine_spec_self l2_norm_counts_zero)

theorem cosine_similarity_diagonal_witness:
  "cosine_similarity [[3, 4], [4, 3], [0, 0]] ! 0 ! 0 = 1 \<and>
   cosine_similarity [[3, 4], [4, 3], [0, 0]] ! 2 ! 2 = 0"
  using cosine_similarity_diagonal [of 0 "[[3, 4], [4, 3], [0, 0]]"]
    cosine_similarity_diagonal [of 2 "[[3, 4], [4, 3], [0, 0]]"] by simp

end
