(* ===== verification/Artifacts.thy ===== *)
theory Artifacts
  imports Data_Model
begin

text \<open>
  The Artifact Store: \<open>save_resources\<close> (CourseRecommendationSystem.py, lines 58-64)
  and \<open>load_resources\<close> (main.py, lines 15-26). The file system is a map from paths
  to file contents; a file holds a pickled Python object or bytes that do not unpickle.
  \<open>pickle.dump(obj, open(path, 'wb'))\<close> replaces the file at \<open>path\<close>; the three
  writes of \<open>save_resources\<close> are an explicit list of steps so that a reader between
  two of them can be modelled. \<open>pickle.load\<close> raises \<open>FileNotFoundError\<close> for a
  missing file and \<open>UnpicklingError\<close> for bytes that are no pickle; \<open>load_resources\<close>
  catches the first into "Critical data files missing", every other exception into
  "Error loading data", and stops the script run (\<open>st.stop()\<close>) in both cases.
  \<open>os.makedirs\<close> is not modelled (the directory is assumed to exist after it).
\<close>

section \<open>Definitions\<close>

text \<open>The objects the program pickles: the matrix, \<open>df.to_dict()\<close> and the frame.\<close>

datatype pyobj =
    PNdarray matrix
  | PDict "(string \<times> (nat \<times> cell) list) list"
  | PDataFrame course_table

datatype file_content = Pickled pyobj | Unpicklable

type_synonym file_system = "string \<rightharpoonup> file_content"

definition similarity_path :: string where "similarity_path = ''models/similarity.pkl''"
definition course_list_path :: string where "course_list_path = ''models/course_list.pkl''"
definition courses_path :: string where "courses_path = ''models/courses.pkl''"

text \<open>
  \<open>df.to_dict()\<close>: one entry per column, in column order, each mapping the row label to
  the value.
\<close>

definition df_to_dict :: "course_table \<Rightarrow> (string \<times> (nat \<times> cell) list) list" where
  "df_to_dict cs =
     [(''course_name'', enumerate 0 (map (\<lambda>c. CStr (course_name c)) cs)),
      (''University'', enumerate 0 (map university cs)),
      (''Difficulty Level'', enumerate 0 (map difficulty_level cs)),
      (''Course Rating'', enumerate 0 (map course_rating cs)),
      (''Course URL'', enumerate 0 (map course_url cs)),
      (''Course Description'', enumerate 0 (map (\<lambda>c. CStr (course_description c)) cs)),
      (''Skills'', enumerate 0 (map (\<lambda>c. CStr (skills c)) cs)),
      (''tags'', enumerate 0 (map (\<lambda>c. CStr (tags c)) cs))]"

text \<open>One write: \<open>pickle.dump(obj, open(path, 'wb'))\<close>, or \<open>df.to_pickle(path)\<close>.\<close>

definition write_pickle :: "file_system \<Rightarrow> string \<times> pyobj \<Rightarrow> file_system" where
  "write_pickle fs w = fs(fst w \<mapsto> Pickled (snd w))"

text \<open>The writes of \<open>save_resources\<close>, in the order of lines 62-64.\<close>

definition save_writes :: "course_table \<Rightarrow> matrix \<Rightarrow> (string \<times> pyobj) list" where
  "save_writes df sim =
     [(similarity_path, PNdarray sim),
      (course_list_path, PDict (df_to_dict df)),
      (courses_path, PDataFrame df)]"

definition save_resources :: "file_system \<Rightarrow> course_table \<Rightarrow> matrix \<Rightarrow> file_system" where
  "save_resources fs df sim = foldl write_pickle fs (save_writes df sim)"

text \<open>\<open>pickle.load(open(path, 'rb'))\<close>.\<close>

definition pickle_load :: "file_system \<Rightarrow> string \<Rightarrow> py_error + pyobj" where
  "pickle_load fs path =
     (case fs path of
        None \<Rightarrow> Inl (FileNotFoundError path)
      | Some (Pickled obj) \<Rightarrow> Inr obj
      | Some Unpicklable \<Rightarrow> Inl (UnpicklingError path))"

text \<open>The \<open>try\<close> block of \<open>load_resources\<close> (lines 17-20): courses first, then the matrix.\<close>

definition load_try :: "file_system \<Rightarrow> py_error + (pyobj \<times> pyobj)" where
  "load_try fs =
     (case pickle_load fs courses_path of
        Inl e \<Rightarrow> Inl e
      | Inr courses \<Rightarrow>
          (case pickle_load fs similarity_path of
             Inl e \<Rightarrow> Inl e
           | Inr similarity \<Rightarrow> Inr (courses, similarity)))"

datatype load_outcome =
    Loaded pyobj pyobj
  | Stopped_missing py_error
  | Stopped_error py_error

text \<open>The handlers (lines 21-26): both report and stop the run.\<close>

definition load_resources :: "file_system \<Rightarrow> load_outcome" where
  "load_resources fs =
     (case load_try fs of
        Inr (courses, similarity) \<Rightarrow> Loaded courses similarity
      | Inl (FileNotFoundError p) \<Rightarrow> Stopped_missing (FileNotFoundError p)
      | Inl e \<Rightarrow> Stopped_error e)"

section \<open>Lemmas\<close>

lemma artifact_paths_distinct [simp]:
  "similarity_path \<noteq> courses_path" "courses_path \<noteq> similarity_path"
  "course_list_path \<noteq> courses_path" "courses_path \<noteq> course_list_path"
  "similarity_path \<noteq> course_list_path" "course_list_path \<noteq> similarity_path"
  by (simp_all add: similarity_path_def courses_path_def course_list_path_def)

lemma save_resources_files:
  "save_resources fs df sim =
     fs(similarity_path \<mapsto> Pickled (PNdarray sim),
        course_list_path \<mapsto> Pickled (PDict (df_to_dict df)),
        courses_path \<mapsto> Pickled (PDataFrame df))"
  by (simp add: save_resources_def save_writes_def write_pickle_def)

lemma load_resources_pickled:
  "fs courses_path = Some (Pickled a) \<Longrightarrow> fs similarity_path = Some (Pickled b) \<Longrightarrow>
   load_resources fs = Loaded a b"
  by (simp add: load_resources_def load_try_def pickle_load_def)

section \<open>Properties\<close>

text \<open>
  C18. Round trip: whatever the file system held before, loading after
  \<open>save_resources\<close> returns the saved frame and the saved matrix.
\<close>

theorem save_load_roundtrip:
  "load_resources (save_resources fs df sim) = Loaded (PDataFrame df) (PNdarray sim)"
  by (rule load_resources_pickled) (simp_all add: save_resources_files)

text \<open>
  C19. Missing artifact: a missing table file, or a present table with a missing matrix
  file, stops the run with the "files missing" report naming the missing path.
\<close>

theorem load_resources_missing:
  "(fs courses_path = None \<longrightarrow> load_resources fs = Stopped_missing (FileNotFoundError courses_path)) \<and>
   (fs courses_path = Some (Pickled a) \<longrightarrow> fs similarity_path = None \<longrightarrow>
      load_resources fs = Stopped_missing (FileNotFoundError similarity_path))"
  by (simp add: load_resources_def load_try_def pickle_load_def)

theorem load_resources_missing_witness:
  "load_resources Map.empty = Stopped_missing (FileNotFoundError courses_path) \<and>
   load_resources [courses_path \<mapsto> Pickled (PDataFrame [])] =
     Stopped_missing (FileNotFoundError similarity_path)"
  using load_resources_missing [of "Map.empty" "PDataFrame []"]
    load_resources_missing [of "[courses_path \<mapsto> Pickled (PDataFrame [])]" "PDataFrame []"]
  by simp

text \<open>
  C20. Corrupt artifact: a file that does not unpickle stops the run with the generic
  "Error loading data" report.
\<close>

theorem load_resources_corrupt:
  assumes "fs courses_path = Some Unpicklable"
  shows "load_resources fs = Stopped_error (UnpicklingError courses_path)"
  using assms by (simp add: load_resources_def load_try_def pickle_load_def)

theorem load_resources_corrupt_witness:
  "load_resources [courses_path \<mapsto> Unpicklable] = Stopped_error (UnpicklingError courses_path)"
  by (rule load_resources_corrupt) simp

text \<open>
  C21. Finding: the loaded pair is not checked. A table and a matrix of different sizes
  load without error, although the specification requires a mismatch to stop the
  serving process.
\<close>

theorem load_accepts_mismatched_pair:
  assumes "length sim \<noteq> length df"
    and "fs courses_path = Some (Pickled (PDataFrame df))"
    and "fs similarity_path = Some (Pickled (PNdarray sim))"
  shows "load_resources fs = Loaded (PDataFrame df) (PNdarray sim)"
  using assms(2,3) by (rule load_resources_pickled)

theorem load_accepts_mismatched_pair_witness:
  "load_resources [courses_path \<mapsto> Pickled (PDataFrame []), similarity_path \<mapsto> Pickled (PNdarray [[1]])] =
     Loaded (PDataFrame []) (PNdarray [[1]])"
  by (rule load_accepts_mismatched_pair) simp_all

text \<open>
  C22. Finding (ordering): \<open>save_resources\<close> replaces the two artifacts by separate
  writes, the matrix first. A load between the first write and the last one sees the new
  matrix with the old table: the pair is not replaced atomically.
\<close>

theorem save_not_atomic:
  assumes "fs courses_path = Some (Pickled old)" and "0 < k" and "k < 3"
  shows "load_resources (foldl write_pickle fs (take k (save_writes df sim))) = Loaded old (PNdarray sim)"
proof -
  from assms(2,3) have "k = 1 \<or> k = 2" by auto
  then have "foldl write_pickle fs (take k (save_writes df sim)) courses_path = fs courses_path \<and>
             foldl write_pickle fs (take k (save_writes df sim)) similarity_path = Some (Pickled (PNdarray sim))"
    by (auto simp: save_writes_def write_pickle_def)
  with assms(1) show ?thesis by (simp add: load_resources_pickled)
qed

theorem save_not_atomic_witness:
  "load_resources (foldl write_pickle [courses_path \<mapsto> Pickled (PDataFrame [])]
     (take 1 (save_writes [example_course ''python'' ''Beginner'' ''python'' ''coding''] [[1]]))) =
   Loaded (PDataFrame []) (PNdarray [[1]])"
  by (rule save_not_atomic) simp_all

end
