(* ===== verification/Pipeline.thy ===== *)
theory Pipeline
  imports Preprocess Vectorizer Similarity Artifacts
begin

text \<open>
  The Pipeline driver: \<open>create_similarity_matrix\<close> (CourseRecommendationSystem.py,
  lines 50-56) and \<open>main()\<close> (lines 66-76), which compose the Tag Composer, the
  Vectorizer, the Similarity Builder and the Artifact Store. An exception of any stage is
  not caught and ends the script before \<open>save_resources\<close>: the model returns it in
  place of the new file system, so a failed build writes nothing. The progress messages
  of \<open>print\<close> are not modelled. The end-to-end theorem shows that a successful build
  leaves on disk a table and a matrix that load as a matched pair: one square row per
  course.
\<close>

section \<open>Definitions\<close>

definition max_features :: nat where
  "max_features = 5000"

text \<open>
  \<open>create_similarity_matrix(df)\<close>: the count vectors of the tags and their cosine
  similarity matrix.
\<close>

definition create_similarity_matrix :: "argsort \<Rightarrow> string list \<Rightarrow> course_table \<Rightarrow> py_error + matrix" where
  "create_similarity_matrix argsort stop_words df =
     py_bind (fit_transform argsort stop_words max_features (map tags df))
       (\<lambda>(vocabulary, vectors). Inr (cosine_similarity vectors))"

text \<open>\<open>main()\<close>: preprocess, build the matrix, save both.\<close>

definition pipeline_main ::
  "(string \<Rightarrow> string) \<Rightarrow> argsort \<Rightarrow> string list \<Rightarrow> frame \<Rightarrow> file_system \<Rightarrow> py_error + file_system" where
  "pipeline_main stem argsort stop_words raw fs =
     py_bind (preprocess_data stem raw) (\<lambda>processed_df.
     py_bind (create_similarity_matrix argsort stop_words processed_df) (\<lambda>similarity_matrix.
     Inr (save_resources fs processed_df similarity_matrix)))"

section \<open>Lemmas\<close>

lemma create_similarity_matrix_square:
  assumes "create_similarity_matrix argsort stop_words df = Inr sim"
  shows "length sim = length df \<and> list_all (\<lambda>row. length row = length df) sim"
proof -
  obtain vocab X where ft: "fit_transform argsort stop_words max_features (map tags df) = Inr (vocab, X)"
    and sim: "sim = cosine_similarity X"
    using assms by (auto simp: create_similarity_matrix_def py_bind_eq_Inr)
  have "length X = length df" using fit_transform_counts [OF ft] by simp
  then show ?thesis using sim by (simp add: cosine_similarity_def Let_def list_all_iff)
qed

lemma pipeline_main_Inr:
  assumes "pipeline_main stem argsort stop_words raw fs = Inr fs'"
  shows "\<exists>df sim. preprocess_data stem raw = Inr df \<and> create_similarity_matrix argsort stop_words df = Inr sim \<and>
           fs' = save_resources fs df sim"
  using assms by (auto simp: pipeline_main_def py_bind_eq_Inr)

section \<open>Properties\<close>

text \<open>
  C34. End to end: when \<open>main()\<close> completes, the files it leaves load as the processed
  table and a similarity matrix with one row per course and one column per course, the
  matched pair the specification requires of the Artifact Store.
\<close>

theorem pipeline_saves_matched_pair:
  assumes "pipeline_main stem argsort stop_words raw fs = Inr fs'"
  shows "\<exists>df sim. preprocess_data stem raw = Inr df \<and>
           load_resources fs' = Loaded (PDataFrame df) (PNdarray sim) \<and>
           length sim = length df \<and> list_all (\<lambda>row. length row = length df) sim"
proof -
  obtain df sim where df: "preprocess_data stem raw = Inr df"
    and sim: "create_similarity_matrix argsort stop_words df = Inr sim"
    and fs': "fs' = save_resources fs df sim"
    using pipeline_main_Inr [OF assms] by blast
  have "load_resources fs' = Loaded (PDataFrame df) (PNdarray sim)"
    unfolding fs' by (rule load_resources_pickled) (simp_all add: save_resources_files)
  then show ?thesis using df create_similarity_matrix_square [OF sim] by blast
qed

theorem pipeline_saves_matched_pair_witness:
  "pipeline_main id stable_argsort [] (raw_frame [CStr ''Python''] [CStr ''MIT''] [CStr ''Beginner'']
      [CStr ''4.5''] [CStr ''u''] [CStr ''learn''] [CStr ''coding'']) Map.empty =
     Inr (save_resources Map.empty
       [preprocess_row id (CStr ''Python'') (CStr ''MIT'') (CStr ''Beginner'') (CStr ''4.5'') (CStr ''u'')
          (CStr ''learn'') (CStr ''coding'')]
       (cosine_similarity [[1, 1, 1, 1]])) \<and>
   length (cosine_similarity [[1, 1, 1, 1]]) = 1"
proof -
  have r: "pipeline_main id stable_argsort [] (raw_frame [CStr ''Python''] [CStr ''MIT''] [CStr ''Beginner'']
      [CStr ''4.5''] [CStr ''u''] [CStr ''learn''] [CStr ''coding'']) Map.empty =
     Inr (save_resources Map.empty
       [preprocess_row id (CStr ''Python'') (CStr ''MIT'') (CStr ''Beginner'') (CStr ''4.5'') (CStr ''u'')
          (CStr ''learn'') (CStr ''coding'')]
       (cosine_similarity [[1, 1, 1, 1]]))"
    by (simp add: pipeline_main_def create_similarity_matrix_def max_features_def preprocess_eval raw_frame_def
        preprocess_row_def tag_text_def vectorizer_eval)
  from pipeline_saves_matched_pair [OF r] show ?thesis
    using r by (auto simp: save_resources_files load_resources_pickled)
qed

end
