(* ===== verification/Spec2Isabelle.thy ===== *)
theory Spec2Isabelle
  imports Page Pipeline
begin

text \<open>
  \<^bold>\<open>A verification library for the Course Recommender System.\<close>

  The program has two source files. \<^verbatim>\<open>src/CourseRecommendationSystem.py\<close> is the offline
  pipeline: \<open>preprocess_data\<close> reads the Coursera CSV, cleans the course name,
  description and skills (\<open>re.sub(r'[^\w\s]', '', x)\<close>, lower case, whitespace runs to
  one space), composes the \<open>tags\<close> document of name, difficulty, description and
  skills, stems each word and selects eight columns; \<open>create_similarity_matrix\<close>
  vectorises the tags with \<open>CountVectorizer(max_features=5000, stop_words='english')\<close>
  and takes \<open>cosine_similarity\<close>; \<open>save_resources\<close> pickles the matrix and the table.
  \<^verbatim>\<open>src/main.py\<close> is the Streamlit page: \<open>load_resources\<close> unpickles the two artifacts,
  \<open>get_recommendations\<close> ranks a matched course's matrix row, \<open>enhanced_search\<close>
  filters the table by a query, and \<open>main\<close> renders the results. The two halves
  interact only through the two pickled artifacts, coupled by row position.

  \<^bold>\<open>Theories\<close> (each imports the ones it builds on; this root imports them all).
  \<^item> \<open>Prelude\<close>: the Python built-ins both files use, as HOL functions:
    \<open>py_index\<close> (list indexing that raises \<open>IndexError\<close>), \<open>py_slice\<close>, \<open>py_bind\<close>
    (statements in sequence, the first exception propagating), \<open>py_mapM\<close> (a
    comprehension or \<open>Series.apply\<close>), \<open>py_sorted_reverse\<close> (\<open>sorted(..., reverse=True)\<close>
    as CPython computes it: reverse, stable sort, reverse), \<open>py_lower\<close>, \<open>py_strip\<close>,
    \<open>py_unique\<close>; the exception datatype \<open>py_error\<close>; and the shared lemmas on stable
    sorting (reverse sorting is sorting by the negated key; a stable sort of a list
    ordered by \<open>h\<close> breaks ties by \<open>h\<close>; the strictly least key comes first).
  \<^item> \<open>Data_Model\<close>: a CSV cell (\<open>cell\<close>: a string or NaN), the processed course row
    (\<open>course\<close>, the eight columns of \<open>new_df\<close>), the matrix and the count vectors.
  \<^item> \<open>Normalizer\<close>: the string functions of lines 16-18 and 30 of
    CourseRecommendationSystem.py: \<open>strip_punct\<close> (\<open>re.sub(r'[^\w\s]', '', x)\<close>),
    \<open>collapse_ws\<close> (\<open>\s+\<close> to one space), \<open>clean_text\<close>, \<open>py_split\<close> and \<open>py_join\<close>
    (\<open>str.split\<close>, \<open>' '.join\<close>), \<open>stem_words\<close>. Lemmas: the cleaned text has only
    lower-case word characters and single spaces; cleaning is idempotent.
  \<^item> \<open>Preprocess\<close>: \<open>preprocess_data\<close> (lines 10-48) over a frame as an association
    list of columns: \<open>df_get\<close> (\<open>KeyError\<close>), \<open>df_set\<close>, \<open>df_rename\<close>, \<open>df_select\<close>,
    the cleaning loop \<open>clean_columns\<close>, the tag sum \<open>compose_tags\<close> (NaN-propagating
    \<open>+\<close>), \<open>stem_tag\<close> (\<open>AttributeError\<close> on NaN). The row-wise specification
    \<open>preprocess_row\<close>; lemmas: refinement of the column code by it, the tag's words,
    failing fast on a missing column, and the \<open>AttributeError\<close> of a missing difficulty.
  \<^item> \<open>Vectorizer\<close>: \<open>CountVectorizer.fit_transform\<close> (lines 52-53) as scikit-learn
    computes it: \<open>word_runs\<close> and \<open>tokenize\<close> (\<open>\b\w\w+\b\<close> after lower-casing, stop
    words removed), \<open>count_vocab\<close> (empty-vocabulary \<open>ValueError\<close>), \<open>term_freq\<close>,
    \<open>limit_features\<close> over an \<open>argsort\<close> parameter, \<open>fit_transform\<close>. The specification's
    vocabulary \<open>top_features\<close>; lemmas: size \<open>min(5000, distinct tokens)\<close> and sorted,
    selection by frequency, equivalence with \<open>top_features\<close> for a stable \<open>argsort\<close>,
    the empty-vocabulary error, and that a tie at the cut-off leaves the vocabulary
    undetermined by the counts.
  \<^item> \<open>Similarity\<close>: \<open>cosine_similarity\<close> (line 55) as L2 normalisation and a product
    with the transpose; square, symmetric, in [0, 1], diagonal 1 or 0, equal to the
    specification's \<open>cosine_spec\<close> (Cauchy-Schwarz on lists).
  \<^item> \<open>Artifacts\<close>: \<open>save_resources\<close> (lines 58-64) as three writes to a file-system map
    and \<open>load_resources\<close> (main.py, lines 15-26); round trip, missing and corrupt
    files, the unchecked pair, and the non-atomic save.
  \<^item> \<open>Pipeline\<close>: \<open>create_similarity_matrix\<close> and \<open>main()\<close> (lines 50-56, 66-76)
    composing the above; a completed build leaves a table and a square matrix that load
    as a matched pair.
  \<^item> \<open>Recommend\<close>: \<open>get_recommendations\<close> (main.py, lines 60-71): \<open>name_matches\<close>,
    \<open>sorted_scores\<close> (reverse sort and \<open>[1:7]\<close>), \<open>recommendation_try\<close> with its
    exceptions as \<open>Inl\<close> values, \<open>get_recommendations_run\<close> the whole function with the
    errors it reports through \<open>st.error\<close>, \<open>get_recommendations\<close> its return value;
    refinement of the specification \<open>rank_by_score\<close>, at most six names, order,
    self-exclusion without ties, the first match used, no match without an error
    report, and the caught \<open>IndexError\<close> of a missing matrix row.
  \<^item> \<open>Search\<close>: \<open>enhanced_search\<close> (main.py, lines 74-80) with the regular-expression
    compiler as a parameter; refinement of the substring specification on literal
    queries and the whitespace query.
  \<^item> \<open>Page\<close>: one Streamlit run of \<open>main()\<close> (main.py, lines 29-116) as \<open>page_step\<close> over
    the session map, a sequence of reruns as \<open>page_run\<close>, with the loaded table and
    matrix as parameters; the difficulty filter, the uncaught search error, and that
    recommendations are never shown. The card rendering (lines 89-104) is not modelled.

  \<^bold>\<open>Parameters and bounds.\<close> The Porter stemmer, the English stop-word list, NumPy's
  \<open>argsort\<close> and the \<open>re\<close> compiler are parameters: they are libraries the sources
  only call. Properties that need them to behave state it as a hypothesis
  (\<open>valid_argsort\<close>, \<open>compiles_literally\<close>) that the witnesses discharge with an
  instance (\<open>stable_argsort\<close>, \<open>literal_compile\<close>). \<open>max_features\<close> is 5000 as in the
  code; the vocabulary theorems hold for any limit. No loop of the program can run
  forever: every loop is a structural or measured recursion, so no fuel is needed.

  \<^bold>\<open>Not modelled.\<close> The Streamlit rendering (markdown, columns, expanders, styling)
  and its caching, CSV parsing (\<open>pd.read_csv\<close>: the raw frame is the input),
  \<open>os.makedirs\<close> and \<open>print\<close>, the Porter stemmer's rules, characters beyond ASCII in
  \<open>\w\<close> and \<open>str.lower\<close> (the Latin-1 letters, which Python keeps as word characters,
  are removed here; \<open>\s\<close> covers 0-255 exactly), columns that \<open>read_csv\<close> types as
  numeric (a numeric or all-missing tag column would make \<open>+\<close> raise \<open>TypeError\<close>;
  cells are strings or NaN), floating-point rounding (floats are reals), and
  regular-expression semantics beyond literal patterns.
\<close>

section \<open>Properties across components\<close>

text \<open>
  C8. Finding, across the Similarity Builder and the Recommendation Engine: two courses
  whose count vectors are equal and non-empty (duplicate documents, or names that differ
  only in stop words or one-letter words) have similarity 1 with each other and with
  themselves; \<open>[1:7]\<close> then drops the earlier course, and the later one is recommended
  to itself.
\<close>

theorem duplicate_documents_recommend_self:
  assumes "sum_list v \<noteq> 0" and "py_lower (course_name c0) \<noteq> py_lower (course_name c1)"
  shows "get_recommendations [c0, c1] (cosine_similarity [v, v]) (course_name c1) = [course_name c1]"
proof -
  have "cosine_similarity [v, v] = [[1, 1], [1, 1]]"
    using assms(1)
    by (simp add: cosine_similarity_def Let_def dot_normalize_row cosine_spec_self l2_norm_counts_zero)
  then show ?thesis using get_recommendations_tied_pair [OF assms(2)] by simp
qed

theorem duplicate_documents_recommend_self_witness:
  "get_recommendations
     [example_course ''python basics'' ''Beginner'' ''python'' ''coding'',
      example_course ''python basics i'' ''Beginner'' ''python'' ''coding'']
     (cosine_similarity [[1, 2], [1, 2]]) ''python basics i'' = [''python basics i'']"
proof -
  have h1: "sum_list [1, 2 :: nat] \<noteq> 0" by simp
  have h2: "py_lower (course_name (example_course ''python basics'' ''Beginner'' ''python'' ''coding'')) \<noteq>
     py_lower (course_name (example_course ''python basics i'' ''Beginner'' ''python'' ''coding''))"
    by (simp add: example_simps)
  show ?thesis using duplicate_documents_recommend_self [OF h1 h2] by (simp add: example_course_def)
qed

end
